theory Spec2Isabelle
  imports Complex_Main "HOL-Library.Multiset"
begin

section \<open>The grid map of \<^verbatim>\<open>sample/grid_map.h\<close>\<close>

text \<open>
  \<^verbatim>\<open>GridMap<CostType>\<close> is a square-tile grid map for best-first search. A coordinate
  \<^verbatim>\<open>Coord\<close> is a pair of C++ \<^verbatim>\<open>int\<close>s, here a pair of integers. A C++ \<^verbatim>\<open>int\<close> has 32
  bits. Where the distance functions compute with the coordinates, the result of each
  \<^verbatim>\<open>int\<close> operation is wrapped to 32 bits (\<open>int32\<close>): C++ leaves signed overflow
  undefined, and the wrapped value is what the compiled code computes. The neighbour
  generators and \<^verbatim>\<open>edge_weight\<close> are stated with exact sums: they move a coordinate by
  an offset of at most one and take the difference back, which wrapping does not change.

  \<^verbatim>\<open>CostType\<close> is a template parameter (\<^verbatim>\<open>double\<close> by default, \<^verbatim>\<open>int\<close> is the other
  documented choice). It is the type variable \<open>'c\<close> here. The conversion
  \<^verbatim>\<open>static_cast<CostType>\<close> from \<^verbatim>\<open>double\<close> is the parameter \<open>cast\<close> of the functions
  that use it: \<open>cast_double\<close> for \<^verbatim>\<open>CostType = double\<close>, with \<^verbatim>\<open>double\<close> idealised as
  \<open>real\<close> (no rounding), and \<open>cast_int\<close> for \<^verbatim>\<open>CostType = int\<close> (truncation towards
  zero). The conversion from \<^verbatim>\<open>int\<close> to \<^verbatim>\<open>CostType\<close> is \<open>of_int\<close>.
\<close>

subsection \<open>Coordinates, errors and cost conversions\<close>

type_synonym Coord = "int \<times> int"

text \<open>The accessors \<^verbatim>\<open>x(n)\<close> and \<^verbatim>\<open>y(n)\<close> (\<^verbatim>\<open>n.first\<close>, \<^verbatim>\<open>n.second\<close>).\<close>

definition x_coord :: "Coord \<Rightarrow> int" where
  "x_coord n = fst n"

definition y_coord :: "Coord \<Rightarrow> int" where
  "y_coord n = snd n"

text \<open>
  Every way in which a call can fail to return normally: an access outside the grid, the
  \<^verbatim>\<open>assert(0)\<close> of \<^verbatim>\<open>edge_weight\<close>, a front removal from an empty open list, a priority
  change of a node the open list does not hold, the dereference of a null parent pointer,
  and a terrain sequence of the wrong length at construction.
\<close>

datatype error =
    OutOfBounds
  | AssertionFailed
  | EmptyQueue
  | NotInQueue
  | NullParent
  | BadMatrixSize

definition cast_double :: "real \<Rightarrow> real" where
  "cast_double r = r"

definition cast_int :: "real \<Rightarrow> int" where
  "cast_int r = (if 0 \<le> r then \<lfloor>r\<rfloor> else \<lceil>r\<rceil>)"

subsection \<open>Step weights and distance functions\<close>

definition kDiagonalEdgeWeight :: "(real \<Rightarrow> 'c) \<Rightarrow> 'c" where
  "kDiagonalEdgeWeight cast = cast (14143 / 10000)"

definition kStraightEdgeWeight :: "(real \<Rightarrow> 'c) \<Rightarrow> 'c" where
  "kStraightEdgeWeight cast = cast 1"

text \<open>
  The value a 32-bit two's complement \<^verbatim>\<open>int\<close> holds after an operation whose exact
  result is \<open>v\<close>, and \<^verbatim>\<open>abs\<close> on such an \<^verbatim>\<open>int\<close> (the absolute value of the least
  \<^verbatim>\<open>int\<close> wraps to itself).
\<close>

definition int32 :: "int \<Rightarrow> int" where
  "int32 v = (v + 2147483648) mod 4294967296 - 2147483648"

definition abs32 :: "int \<Rightarrow> int" where
  "abs32 v = int32 \<bar>v\<bar>"

definition manhattan_distance :: "Coord \<Rightarrow> Coord \<Rightarrow> 'c::ring_1" where
  "manhattan_distance n0 n1 =
     of_int (int32 (abs32 (int32 (x_coord n1 - x_coord n0))
                    + abs32 (int32 (y_coord n1 - y_coord n0))))"

definition diagonal_distance :: "(real \<Rightarrow> 'c) \<Rightarrow> Coord \<Rightarrow> Coord \<Rightarrow> 'c::ring_1" where
  "diagonal_distance cast n0 n1 =
     (let dx = abs32 (int32 (x_coord n1 - x_coord n0));
          dy = abs32 (int32 (y_coord n1 - y_coord n0));
          dmin = min dx dy;
          dmax = max dx dy
      in of_int dmin * kDiagonalEdgeWeight cast
           + of_int (int32 (dmax - dmin)) * kStraightEdgeWeight cast)"

text \<open>
  \<^verbatim>\<open>sqrt\<close> of a negative argument (an overflowed sum of squares) is NaN, which is no
  number of the cost type: the result is \<open>None\<close> then.
\<close>

definition duclidean_distance :: "(real \<Rightarrow> 'c) \<Rightarrow> Coord \<Rightarrow> Coord \<Rightarrow> 'c option" where
  "duclidean_distance cast n0 n1 =
     (let dx = abs32 (int32 (x_coord n1 - x_coord n0));
          dy = abs32 (int32 (y_coord n1 - y_coord n0));
          v = int32 (int32 (dx * dx) + int32 (dy * dy))
      in if v < 0 then None else Some (cast (sqrt (of_int v))))"

subsection \<open>Neighbour generation\<close>

text \<open>
  The offset tables are declared with nine entries; the initialisers give four or eight
  of them and C++ zero-fills the rest. The loops read the first four or eight.
\<close>

definition x_offsets_4 :: "int list" where
  "x_offsets_4 = [0, -1, 1, 0, 0, 0, 0, 0, 0]"

definition y_offsets_4 :: "int list" where
  "y_offsets_4 = [-1, 0, 0, 1, 0, 0, 0, 0, 0]"

definition x_offsets_8 :: "int list" where
  "x_offsets_8 = [-1, 0, 1, -1, 1, -1, 0, 1, 0]"

definition y_offsets_8 :: "int list" where
  "y_offsets_8 = [-1, -1, -1, 0, 0, 1, 1, 1, 0]"

definition coord_4_neighbors :: "Coord \<Rightarrow> Coord list" where
  "coord_4_neighbors c =
     map (\<lambda>i. (fst c + x_offsets_4 ! i, snd c + y_offsets_4 ! i)) [0..<4]"

definition coord_8_neighbors :: "Coord \<Rightarrow> Coord list" where
  "coord_8_neighbors c =
     map (\<lambda>i. (fst c + x_offsets_8 ! i, snd c + y_offsets_8 ! i)) [0..<8]"

text \<open>
  \<^verbatim>\<open>edge_weight\<close>: the Manhattan distance of the two cells selects the weight; any
  distance other than 1 or 2 runs into \<^verbatim>\<open>assert(0)\<close>.
\<close>

definition edge_weight :: "(real \<Rightarrow> 'c) \<Rightarrow> Coord \<Rightarrow> Coord \<Rightarrow> error + 'c" where
  "edge_weight cast c0 c1 =
     (let d = \<bar>y_coord c1 - y_coord c0\<bar> + \<bar>x_coord c1 - x_coord c0\<bar>
      in if d = 2 then Inr (kDiagonalEdgeWeight cast)
         else if d = 1 then Inr (kStraightEdgeWeight cast)
         else Inl AssertionFailed)"

subsection \<open>The vertex cost matrix\<close>

text \<open>
  Modelled from the spec: \<^verbatim>\<open>vertex_matrix.h\<close> (class \<^verbatim>\<open>VertexMatrix\<close>) is not among the
  sources. The spec describes it as a fixed W by H array of terrain weights, built from
  a row-major sequence of W*H costs (construction fails on any other length);
  \<^verbatim>\<open>weight\<close> returns the stored weight and is undefined or erroring outside the grid;
  \<^verbatim>\<open>is_passable\<close> holds when the coordinate is inside the grid and its weight is not
  negative.
\<close>

record 'c VertexMatrix =
  vm_w :: int
  vm_h :: int
  vm_matrix :: "'c list"

text \<open>
  Modelled from the spec: the constructor of \<^verbatim>\<open>VertexMatrix\<close> (\<^verbatim>\<open>vertex_matrix.h\<close>, not
  among the sources) takes width, height and the row-major sequence, and fails if the
  length of the sequence is not W*H.
\<close>

definition make_VertexMatrix :: "int \<Rightarrow> int \<Rightarrow> 'c list \<Rightarrow> error + 'c VertexMatrix" where
  "make_VertexMatrix w h matrix =
     (if int (length matrix) = w * h
      then Inr \<lparr>vm_w = w, vm_h = h, vm_matrix = matrix\<rparr>
      else Inl BadMatrixSize)"

text \<open>
  Modelled from the spec: the grid bounds of \<^verbatim>\<open>VertexMatrix\<close> (\<^verbatim>\<open>vertex_matrix.h\<close>, not among
  the sources): a coordinate is within \<open>[0,W) x [0,H)\<close>.
\<close>

definition vm_in_grid :: "'c VertexMatrix \<Rightarrow> Coord \<Rightarrow> bool" where
  "vm_in_grid vm c \<longleftrightarrow>
     0 \<le> x_coord c \<and> x_coord c < vm_w vm \<and> 0 \<le> y_coord c \<and> y_coord c < vm_h vm"

text \<open>
  Modelled from the spec: \<^verbatim>\<open>VertexMatrix::weight\<close> (\<^verbatim>\<open>vertex_matrix.h\<close>, not among the
  sources) returns the stored terrain weight of the cell, row-major, and is undefined or
  erroring outside the grid bounds: an error here.
\<close>

definition weight :: "'c VertexMatrix \<Rightarrow> Coord \<Rightarrow> error + 'c" where
  "weight vm c =
     (if vm_in_grid vm c \<and> nat (y_coord c * vm_w vm + x_coord c) < length (vm_matrix vm)
      then Inr (vm_matrix vm ! nat (y_coord c * vm_w vm + x_coord c))
      else Inl OutOfBounds)"

text \<open>
  Modelled from the spec: \<^verbatim>\<open>VertexMatrix::is_passable\<close> (\<^verbatim>\<open>vertex_matrix.h\<close>, not among
  the sources) returns \<open>weight(coord) >= 0\<close> and the coordinate is within the grid.
\<close>

definition is_passable :: "('c::{zero,ord}) VertexMatrix \<Rightarrow> Coord \<Rightarrow> bool" where
  "is_passable vm c =
     (case weight vm c of Inl e \<Rightarrow> False | Inr wt \<Rightarrow> 0 \<le> wt)"

subsection \<open>Edges\<close>

text \<open>
  Modelled from the spec: \<^verbatim>\<open>map.h\<close> (class \<^verbatim>\<open>Edge\<close>) is not among the sources. The spec
  describes an edge as a triple (from, to, weight), which is the order of the
  constructor's arguments in \<^verbatim>\<open>edges\<close>.
\<close>

datatype ('n, 'c) Edge = Edge (edge_from: 'n) (edge_to: 'n) (edge_cost_of: 'c)

definition edge_cost ::
  "(real \<Rightarrow> 'c) \<Rightarrow> ('c::times) VertexMatrix \<Rightarrow> Coord \<Rightarrow> Coord \<Rightarrow> error + 'c" where
  "edge_cost cast vm n0 n1 =
     (case weight vm n1 of
        Inl e \<Rightarrow> Inl e
      | Inr wt \<Rightarrow>
          (case edge_weight cast n0 n1 of
             Inl e \<Rightarrow> Inl e
           | Inr ew \<Rightarrow> Inr (wt * ew)))"

text \<open>The loop of \<^verbatim>\<open>edges\<close> over the neighbour coordinates; \<open>es\<close> is the vector built so far.\<close>

fun edges_loop ::
  "(real \<Rightarrow> 'c) \<Rightarrow> ('c::{zero,ord,times}) VertexMatrix \<Rightarrow> Coord \<Rightarrow> Coord list \<Rightarrow>
     (Coord, 'c) Edge list \<Rightarrow> error + (Coord, 'c) Edge list" where
  "edges_loop cast vm n [] es = Inr es"
| "edges_loop cast vm n (c # cs) es =
     (if is_passable vm c
      then (case edge_cost cast vm n c of
              Inl e \<Rightarrow> Inl e
            | Inr wt \<Rightarrow> edges_loop cast vm n cs (es @ [Edge n c wt]))
      else edges_loop cast vm n cs es)"

subsection \<open>Node records, node store and statistics\<close>

text \<open>
  Modelled from the spec: \<^verbatim>\<open>node_state.h\<close> (enum \<^verbatim>\<open>NodeState\<close>) is not among the sources.
  The spec names the states unexplored, open, closed and the path annotations result,
  start and goal; \<^verbatim>\<open>to_string\<close> indexes its symbol table \<^verbatim>\<open>' ', 'o', '-', '@', 'S', 'G'\<close>
  by the state. The names \<open>open\<close> and \<open>closed\<close> are taken in Isabelle, hence the suffix.
\<close>

datatype NodeState = unexplored | open_st | closed_st | result | start | goal

text \<open>
  Modelled from the spec: \<^verbatim>\<open>grid_node_array.h\<close> (classes \<^verbatim>\<open>GridNode\<close> and
  \<^verbatim>\<open>GridNodeArray\<close>) is not among the sources. The spec gives a node record the fields
  state, g, f, parent and its own coordinate, one record per cell, all allocated at
  construction with state unexplored. The source reads and writes the fields
  \<^verbatim>\<open>state_\<close>, \<^verbatim>\<open>g_\<close>, \<^verbatim>\<open>f_\<close>, \<^verbatim>\<open>parent_\<close> and \<^verbatim>\<open>c_\<close> (Isabelle accepts no name that ends
  with an underscore). A pointer \<^verbatim>\<open>GridNode*\<close> is represented by the coordinate of the
  record it points to, which is what the field \<^verbatim>\<open>c_\<close> of that record holds; the null
  pointer is \<open>None\<close>. The spec fixes no initial value of g, f and parent: they start as
  zero and null here.
\<close>

record 'c GridNode =
  state :: NodeState
  g_cost :: 'c
  f_cost :: 'c
  parent :: "Coord option"

record 'c GridNodeArray =
  na_w :: int
  na_h :: int
  na_nodes :: "Coord \<Rightarrow> 'c GridNode"

text \<open>
  Modelled from the spec: the constructor of \<^verbatim>\<open>GridNodeArray\<close> (\<^verbatim>\<open>grid_node_array.h\<close>, not
  among the sources) allocates every record with state unexplored.
\<close>

definition make_GridNodeArray :: "int \<Rightarrow> int \<Rightarrow> ('c::zero) GridNodeArray" where
  "make_GridNodeArray w h =
     \<lparr>na_w = w, na_h = h,
      na_nodes = (\<lambda>c. \<lparr>state = unexplored, g_cost = 0, f_cost = 0, parent = None\<rparr>)\<rparr>"

text \<open>
  Modelled from the spec: the cells of \<^verbatim>\<open>GridNodeArray\<close> (\<^verbatim>\<open>grid_node_array.h\<close>, not among
  the sources) are the coordinates of the W by H grid; \<^verbatim>\<open>to_string\<close> walks them as
  \<^verbatim>\<open>0 <= j < w_\<close>, \<^verbatim>\<open>0 <= i < h_\<close>.
\<close>

definition has_node :: "'c GridNodeArray \<Rightarrow> Coord \<Rightarrow> bool" where
  "has_node na c \<longleftrightarrow>
     0 \<le> x_coord c \<and> x_coord c < na_w na \<and> 0 \<le> y_coord c \<and> y_coord c < na_h na"

text \<open>
  Modelled from the spec: \<^verbatim>\<open>GridNodeArray::node\<close> (\<^verbatim>\<open>grid_node_array.h\<close>, not among the
  sources) addresses the record of a cell by its coordinate. A coordinate outside the
  grid has no record; asking for it is an error here (an out-of-range array access in
  C++).
\<close>

definition node :: "'c GridNodeArray \<Rightarrow> Coord \<Rightarrow> error + 'c GridNode" where
  "node na c = (if has_node na c then Inr (na_nodes na c) else Inl OutOfBounds)"

text \<open>
  Modelled from the spec: records are mutated in place through the pointer
  \<^verbatim>\<open>GridNodeArray::node\<close> returns (\<^verbatim>\<open>grid_node_array.h\<close>, not among the sources); the
  write \<^verbatim>\<open>node(c)->field = v\<close> is the update of the record of \<open>c\<close> in the store.
\<close>

definition node_update ::
  "Coord \<Rightarrow> ('c GridNode \<Rightarrow> 'c GridNode) \<Rightarrow> 'c GridNodeArray \<Rightarrow> 'c GridNodeArray" where
  "node_update c upd na = na\<lparr>na_nodes := (na_nodes na)(c := upd (na_nodes na c))\<rparr>"

text \<open>
  Modelled from the spec: the priority of a queue element (\<^verbatim>\<open>binary_heap.h\<close>, not among
  the sources) is read from the field f of its record at comparison time, not cached.
\<close>

definition f_of :: "'c GridNodeArray \<Rightarrow> Coord \<Rightarrow> 'c" where
  "f_of na c = f_cost (na_nodes na c)"

text \<open>
  Modelled from the spec: \<^verbatim>\<open>search_stats.h\<close> (class \<^verbatim>\<open>SearchStats\<close>) is not among the
  sources. The spec lists four monotonically increasing counters; the source increments
  the four fields named here.
\<close>

record SearchStats =
  nodes_opened :: nat
  nodes_reopened :: nat
  nodes_closed :: nat
  nodes_priority_increased :: nat

text \<open>
  Modelled from the spec: the counters of \<^verbatim>\<open>SearchStats\<close> (\<^verbatim>\<open>search_stats.h\<close>, not among the
  sources) only ever increase during a search; they start at zero.
\<close>

definition make_SearchStats :: SearchStats where
  "make_SearchStats =
     \<lparr>nodes_opened = 0, nodes_reopened = 0, nodes_closed = 0, nodes_priority_increased = 0\<rparr>"

subsection \<open>The open list\<close>

text \<open>
  Modelled from the spec: \<^verbatim>\<open>hot_queue.h\<close> and \<^verbatim>\<open>binary_heap.h\<close> (the classes \<^verbatim>\<open>HotQueue\<close>
  and \<^verbatim>\<open>BinaryHeap\<close> behind the member \<^verbatim>\<open>open_list_\<close>) are not among the sources. The
  spec describes the open list as a binary min-heap over references to node records,
  ordered by the current f of each record, read at comparison time: \<^verbatim>\<open>insert\<close> appends
  and sifts up; \<^verbatim>\<open>remove_front\<close> returns the root, replaces it with the last element
  and sifts down, and is an error on the empty queue; \<^verbatim>\<open>increase_priority\<close> sets the
  record's f to the new value and sifts up from the element's position. The heap is the
  list of the referenced coordinates in array order, the children of position \<open>i\<close> at
  \<open>2 * i + 1\<close> and \<open>2 * i + 2\<close> and its parent at \<open>heap_parent i\<close>. The position
  of an element is found by search, which
  the spec allows as the behaviour-preserving variant of a position map; asking for the
  position of an element the queue does not hold is the error \<open>NotInQueue\<close>.
\<close>

text \<open>
  Modelled from the spec: the exchange of two array positions that sifting in
  \<^verbatim>\<open>binary_heap.h\<close> (not among the sources) is made of.
\<close>

definition swap :: "'a list \<Rightarrow> nat \<Rightarrow> nat \<Rightarrow> 'a list" where
  "swap xs i j = xs[i := xs ! j, j := xs ! i]"

text \<open>
  Modelled from the spec: the parent position in the array of the binary heap
  (\<^verbatim>\<open>binary_heap.h\<close>, not among the sources).
\<close>

definition heap_parent :: "nat \<Rightarrow> nat" where
  "heap_parent i = (i - 1) div 2"

text \<open>
  Modelled from the spec: sifting up in \<^verbatim>\<open>binary_heap.h\<close> (not among the sources): the
  element at position \<open>i\<close> is exchanged with its parent as long as its key is smaller.
\<close>

function sift_up :: "('a \<Rightarrow> 'c::linorder) \<Rightarrow> 'a list \<Rightarrow> nat \<Rightarrow> 'a list" where
  "sift_up key xs i =
     (if i = 0 \<or> length xs \<le> i then xs
      else if key (xs ! i) < key (xs ! (heap_parent i))
           then sift_up key (swap xs i (heap_parent i)) (heap_parent i)
           else xs)"
  by pat_completeness auto
termination
  by (relation "measure (\<lambda>(key, xs, i). i)") (auto simp: heap_parent_def)

text \<open>
  Modelled from the spec: one comparison of sifting down in \<^verbatim>\<open>binary_heap.h\<close> (not among
  the sources): position \<open>j\<close> if it exists and has a smaller key than position \<open>s\<close>,
  else \<open>s\<close>.
\<close>

definition smaller_child :: "('a \<Rightarrow> 'c::linorder) \<Rightarrow> 'a list \<Rightarrow> nat \<Rightarrow> nat \<Rightarrow> nat" where
  "smaller_child key xs j s =
     (if j < length xs \<and> key (xs ! j) < key (xs ! s) then j else s)"

text \<open>
  Modelled from the spec: sifting down in \<^verbatim>\<open>binary_heap.h\<close> (not among the sources): the
  element at position \<open>i\<close> is exchanged with its smallest child as long as that child
  has a smaller key.
\<close>

function sift_down :: "('a \<Rightarrow> 'c::linorder) \<Rightarrow> 'a list \<Rightarrow> nat \<Rightarrow> 'a list" where
  "sift_down key xs i =
     (let s = smaller_child key xs (2 * i + 2) (smaller_child key xs (2 * i + 1) i)
      in if s \<noteq> i \<and> i < length xs then sift_down key (swap xs i s) s else xs)"
  by pat_completeness auto
termination
  by (relation "measure (\<lambda>(key, xs, i). length xs - i)")
     (auto simp: swap_def smaller_child_def split: if_splits)

text \<open>
  Modelled from the spec: the current array position of an element of the queue
  (\<^verbatim>\<open>binary_heap.h\<close>, not among the sources), \<open>None\<close> for an element the queue does not
  hold.
\<close>

fun index_of :: "'a list \<Rightarrow> 'a \<Rightarrow> nat option" where
  "index_of [] a = None"
| "index_of (x # xs) a = (if x = a then Some 0 else map_option Suc (index_of xs a))"

text \<open>
  Modelled from the spec: \<^verbatim>\<open>is_empty\<close> of the open list (\<^verbatim>\<open>hot_queue.h\<close>, not among the
  sources).
\<close>

definition is_empty :: "'a list \<Rightarrow> bool" where
  "is_empty q \<longleftrightarrow> q = []"

text \<open>
  Modelled from the spec: \<^verbatim>\<open>insert\<close> of the open list (\<^verbatim>\<open>hot_queue.h\<close>, not among the
  sources) appends and sifts up. The name \<open>insert\<close> is taken in Isabelle.
\<close>

definition insert_q :: "('a \<Rightarrow> 'c::linorder) \<Rightarrow> 'a list \<Rightarrow> 'a \<Rightarrow> 'a list" where
  "insert_q key q a = sift_up key (q @ [a]) (length q)"

text \<open>
  Modelled from the spec: \<^verbatim>\<open>remove_front\<close> of the open list (\<^verbatim>\<open>hot_queue.h\<close>, not among the
  sources) returns and removes the root, replacing it with the last element and sifting
  down; it is an error on the empty queue.
\<close>

definition remove_front :: "('a \<Rightarrow> 'c::linorder) \<Rightarrow> 'a list \<Rightarrow> error + ('a \<times> 'a list)" where
  "remove_front key q =
     (if q = [] then Inl EmptyQueue
      else Inr (hd q, sift_down key ((butlast q)[0 := last q]) 0))"

text \<open>
  Modelled from the spec: \<^verbatim>\<open>increase_priority\<close> of the open list (\<^verbatim>\<open>hot_queue.h\<close>, not among
  the sources) sets the record's f to the new value, which must not be above the current
  one, and restores the heap order by sifting up from the element's position.
\<close>

definition increase_priority ::
  "('c::linorder) GridNodeArray \<Rightarrow> Coord list \<Rightarrow> Coord \<Rightarrow> 'c \<Rightarrow>
     error + ('c GridNodeArray \<times> Coord list)" where
  "increase_priority na q n new_f =
     (case index_of q n of
        None \<Rightarrow> Inl NotInQueue
      | Some i \<Rightarrow>
          (let na' = node_update n (\<lambda>r. r\<lparr>f_cost := new_f\<rparr>) na
           in Inr (na', sift_up (f_of na') q i)))"

subsection \<open>The grid map and its operations\<close>

text \<open>
  The members \<^verbatim>\<open>vertex_matrix_\<close>, \<^verbatim>\<open>stats_\<close>, \<^verbatim>\<open>node_array_\<close>, \<^verbatim>\<open>open_list_\<close> and
  \<^verbatim>\<open>enable_diagonal_\<close> of the class, and its constructor. Every method that changes the
  object takes the map and returns the changed map, or the error that stopped it.
\<close>

record 'c GridMap =
  vertex_matrix :: "'c VertexMatrix"
  stats :: SearchStats
  node_array :: "'c GridNodeArray"
  open_list :: "Coord list"
  enable_diagonal :: bool

definition make_GridMap :: "int \<Rightarrow> int \<Rightarrow> ('c::zero) list \<Rightarrow> bool \<Rightarrow> error + 'c GridMap" where
  "make_GridMap w h matrix diag =
     (case make_VertexMatrix w h matrix of
        Inl e \<Rightarrow> Inl e
      | Inr vm \<Rightarrow>
          Inr \<lparr>vertex_matrix = vm, stats = make_SearchStats,
               node_array = make_GridNodeArray w h, open_list = [],
               enable_diagonal = diag\<rparr>)"

definition current_cost :: "'c GridMap \<Rightarrow> Coord \<Rightarrow> error + 'c" where
  "current_cost m n = map_sum id g_cost (node (node_array m) n)"

definition edges ::
  "(real \<Rightarrow> 'c) \<Rightarrow> ('c::{zero,ord,times}) GridMap \<Rightarrow> Coord \<Rightarrow> error + (Coord, 'c) Edge list" where
  "edges cast m n =
     (let coords = (if enable_diagonal m then coord_8_neighbors n else coord_4_neighbors n)
      in edges_loop cast (vertex_matrix m) n coords [])"

definition nodes_equal :: "Coord \<Rightarrow> Coord \<Rightarrow> bool" where
  "nodes_equal n0 n1 \<longleftrightarrow> n0 = n1"

definition open_node_available :: "'c GridMap \<Rightarrow> bool" where
  "open_node_available m \<longleftrightarrow> \<not> is_empty (open_list m)"

definition node_unexplored :: "'c GridMap \<Rightarrow> Coord \<Rightarrow> error + bool" where
  "node_unexplored m n = map_sum id (\<lambda>r. state r = unexplored) (node (node_array m) n)"

definition node_open :: "'c GridMap \<Rightarrow> Coord \<Rightarrow> error + bool" where
  "node_open m n = map_sum id (\<lambda>r. state r = open_st) (node (node_array m) n)"

definition open_node ::
  "Coord \<Rightarrow> 'c \<Rightarrow> 'c \<Rightarrow> Coord \<Rightarrow> ('c::{plus,linorder}) GridMap \<Rightarrow> error + 'c GridMap" where
  "open_node n g h p m =
     (if \<not> has_node (node_array m) n \<or> \<not> has_node (node_array m) p then Inl OutOfBounds
      else
        let na1 = node_update n (\<lambda>r. r\<lparr>parent := Some p\<rparr>) (node_array m);
            na2 = node_update n (\<lambda>r. r\<lparr>g_cost := g\<rparr>) na1;
            na3 = node_update n (\<lambda>r. r\<lparr>f_cost := g + h\<rparr>) na2;
            q = insert_q (f_of na3) (open_list m) n;
            na4 = node_update n (\<lambda>r. r\<lparr>state := open_st\<rparr>) na3;
            st = (stats m)\<lparr>nodes_opened := nodes_opened (stats m) + 1\<rparr>
        in Inr (m\<lparr>node_array := na4, open_list := q, stats := st\<rparr>))"

definition reopen_node ::
  "Coord \<Rightarrow> 'c \<Rightarrow> 'c \<Rightarrow> Coord \<Rightarrow> ('c::{plus,linorder}) GridMap \<Rightarrow> error + 'c GridMap" where
  "reopen_node n g h p m =
     (if \<not> has_node (node_array m) n \<or> \<not> has_node (node_array m) p then Inl OutOfBounds
      else
        let na1 = node_update n (\<lambda>r. r\<lparr>parent := Some p\<rparr>) (node_array m);
            na2 = node_update n (\<lambda>r. r\<lparr>g_cost := g\<rparr>) na1;
            na3 = node_update n (\<lambda>r. r\<lparr>f_cost := g + h\<rparr>) na2;
            q = insert_q (f_of na3) (open_list m) n;
            na4 = node_update n (\<lambda>r. r\<lparr>state := open_st\<rparr>) na3;
            st = (stats m)\<lparr>nodes_reopened := nodes_reopened (stats m) + 1\<rparr>
        in Inr (m\<lparr>node_array := na4, open_list := q, stats := st\<rparr>))"

definition close_front_open_node ::
  "('c::linorder) GridMap \<Rightarrow> error + (Coord \<times> 'c GridMap)" where
  "close_front_open_node m =
     (case remove_front (f_of (node_array m)) (open_list m) of
        Inl e \<Rightarrow> Inl e
      | Inr (gn, q) \<Rightarrow>
          (let na1 = node_update gn (\<lambda>r. r\<lparr>state := closed_st\<rparr>) (node_array m);
               st = (stats m)\<lparr>nodes_closed := nodes_closed (stats m) + 1\<rparr>
           in Inr (gn, m\<lparr>node_array := na1, open_list := q, stats := st\<rparr>)))"

definition increase_node_priority ::
  "Coord \<Rightarrow> 'c \<Rightarrow> 'c \<Rightarrow> Coord \<Rightarrow> ('c::{plus,linorder}) GridMap \<Rightarrow> error + 'c GridMap" where
  "increase_node_priority n g h p m =
     (if \<not> has_node (node_array m) n \<or> \<not> has_node (node_array m) p then Inl OutOfBounds
      else
        let na1 = node_update n (\<lambda>r. r\<lparr>parent := Some p\<rparr>) (node_array m);
            na2 = node_update n (\<lambda>r. r\<lparr>g_cost := g\<rparr>) na1
        in (case increase_priority na2 (open_list m) n (g + h) of
              Inl e \<Rightarrow> Inl e
            | Inr (na3, q) \<Rightarrow>
                Inr (m\<lparr>node_array := na3, open_list := q,
                       stats := (stats m)\<lparr>nodes_priority_increased :=
                                  nodes_priority_increased (stats m) + 1\<rparr>\<rparr>)))"

text \<open>
  The loop of \<^verbatim>\<open>get_path\<close>. \<^verbatim>\<open>node(p)->parent_->c_\<close> is the coordinate the parent pointer
  of \<open>p\<close> stands for. The loop need not end (a cyclic parent chain), so its result is
  an option; \<open>None\<close> is the run that never returns. The result holds the path, the
  cell \<open>p\<close> at which the loop stopped, and the node store.
\<close>

partial_function (option) get_path_loop ::
  "'c GridNodeArray \<Rightarrow> Coord \<Rightarrow> Coord list \<Rightarrow>
     (error + (Coord list \<times> Coord \<times> 'c GridNodeArray)) option" where
  "get_path_loop na p path =
     (if \<not> has_node na p then Some (Inl OutOfBounds)
      else (case parent (na_nodes na p) of
              None \<Rightarrow> Some (Inl NullParent)
            | Some q \<Rightarrow>
                if q \<noteq> p
                then get_path_loop (node_update p (\<lambda>r. r\<lparr>state := result\<rparr>) na) q (path @ [p])
                else Some (Inr (path, p, na))))"

definition get_path :: "Coord \<Rightarrow> 'c GridMap \<Rightarrow> (error + (Coord list \<times> 'c GridMap)) option" where
  "get_path n m =
     (case get_path_loop (node_array m) n [] of
        None \<Rightarrow> None
      | Some (Inl e) \<Rightarrow> Some (Inl e)
      | Some (Inr (path, p, na)) \<Rightarrow>
          (let na1 = node_update n (\<lambda>r. r\<lparr>state := goal\<rparr>) na;
               na2 = node_update p (\<lambda>r. r\<lparr>state := start\<rparr>) na1
           in Some (Inr (path, m\<lparr>node_array := na2\<rparr>))))"

subsection \<open>Call sequences and the notions the properties are stated with\<close>

text \<open>
  A call of one of the four frontier operations, and the run of a sequence of calls on
  a map. \<open>op_pre\<close> is the state-machine precondition of each call: \<^verbatim>\<open>open\<close> on an
  unexplored cell, \<^verbatim>\<open>reopen\<close> on a closed cell, \<^verbatim>\<open>increase_priority\<close> on an open cell,
  \<^verbatim>\<open>close_front\<close> on a non-empty open list; all coordinates are cells of the grid. \<open>meets_pre\<close> holds when every call of the
  sequence that is reached meets its precondition in the state it is made in (a call
  that fails ends the run, and no later call is looked at).
\<close>

datatype 'c op =
    Open Coord 'c 'c Coord
  | Reopen Coord 'c 'c Coord
  | IncreasePriority Coord 'c 'c Coord
  | CloseFront

fun apply_op :: "('c::{plus,linorder}) op \<Rightarrow> 'c GridMap \<Rightarrow> error + 'c GridMap" where
  "apply_op (Open n g h p) m = open_node n g h p m"
| "apply_op (Reopen n g h p) m = reopen_node n g h p m"
| "apply_op (IncreasePriority n g h p) m = increase_node_priority n g h p m"
| "apply_op CloseFront m = map_sum id snd (close_front_open_node m)"

fun run :: "('c::{plus,linorder}) op list \<Rightarrow> 'c GridMap \<Rightarrow> error + 'c GridMap" where
  "run [] m = Inr m"
| "run (a # as) m = (case apply_op a m of Inl e \<Rightarrow> Inl e | Inr m' \<Rightarrow> run as m')"










text \<open>
  \<open>parent_chain na n cs r\<close>: following the parent pointers from \<open>n\<close> visits the cells
  \<open>cs\<close>, none of them its own parent, and then reaches the cell \<open>r\<close>, which is its own
  parent.
\<close>

fun parent_chain :: "'c GridNodeArray \<Rightarrow> Coord \<Rightarrow> Coord list \<Rightarrow> Coord \<Rightarrow> bool" where
  "parent_chain na n [] r \<longleftrightarrow>
     n = r \<and> has_node na r \<and> parent (na_nodes na r) = Some r"
| "parent_chain na n (c # cs) r \<longleftrightarrow>
     n = c \<and> has_node na c
     \<and> (case parent (na_nodes na c) of
          None \<Rightarrow> False
        | Some q \<Rightarrow> q \<noteq> c \<and> parent_chain na q cs r)"

definition chebyshev_distance :: "Coord \<Rightarrow> Coord \<Rightarrow> int" where
  "chebyshev_distance a b = max \<bar>x_coord b - x_coord a\<bar> \<bar>y_coord b - y_coord a\<bar>"

section \<open>Properties\<close>

subsection \<open>Neighbours and step weights\<close>

lemma coord_4_neighbors_eq:
  "coord_4_neighbors (a, b) = [(a, b - 1), (a - 1, b), (a + 1, b), (a, b + 1)]"
  by (simp add: coord_4_neighbors_def x_offsets_4_def y_offsets_4_def upt_conv_Cons)

lemma coord_8_neighbors_eq:
  "coord_8_neighbors (a, b) =
     [(a - 1, b - 1), (a, b - 1), (a + 1, b - 1), (a - 1, b), (a + 1, b),
      (a - 1, b + 1), (a, b + 1), (a + 1, b + 1)]"
  by (simp add: coord_8_neighbors_def x_offsets_8_def y_offsets_8_def upt_conv_Cons)

lemma set_coord_4_neighbors:
  "set (coord_4_neighbors n) = {c. \<bar>fst c - fst n\<bar> + \<bar>snd c - snd n\<bar> = 1}"
proof -
  obtain a b where n: "n = (a, b)" by (cases n)
  show ?thesis
  proof (intro set_eqI iffI)
    fix c assume "c \<in> set (coord_4_neighbors n)"
    then show "c \<in> {c. \<bar>fst c - fst n\<bar> + \<bar>snd c - snd n\<bar> = 1}"
      unfolding n coord_4_neighbors_eq by auto
  next
    fix c assume "c \<in> {c. \<bar>fst c - fst n\<bar> + \<bar>snd c - snd n\<bar> = 1}"
    then have d: "\<bar>fst c - a\<bar> + \<bar>snd c - b\<bar> = 1" by (simp add: n)
    obtain u v where c: "c = (u, v)" by (cases c)
    from d have "(u = a \<and> v = b - 1) \<or> (u = a - 1 \<and> v = b)
        \<or> (u = a + 1 \<and> v = b) \<or> (u = a \<and> v = b + 1)"
      unfolding c by simp arith
    then show "c \<in> set (coord_4_neighbors n)"
      unfolding n c coord_4_neighbors_eq by auto
  qed
qed

lemma set_coord_8_neighbors:
  "set (coord_8_neighbors n) = {c. max \<bar>fst c - fst n\<bar> \<bar>snd c - snd n\<bar> = 1}"
proof -
  obtain a b where n: "n = (a, b)" by (cases n)
  show ?thesis
  proof (intro set_eqI iffI)
    fix c assume "c \<in> set (coord_8_neighbors n)"
    then show "c \<in> {c. max \<bar>fst c - fst n\<bar> \<bar>snd c - snd n\<bar> = 1}"
      unfolding n coord_8_neighbors_eq by auto
  next
    fix c assume "c \<in> {c. max \<bar>fst c - fst n\<bar> \<bar>snd c - snd n\<bar> = 1}"
    then have d: "max \<bar>fst c - a\<bar> \<bar>snd c - b\<bar> = 1" by (simp add: n)
    obtain u v where c: "c = (u, v)" by (cases c)
    from d have "(u = a - 1 \<or> u = a \<or> u = a + 1) \<and> (v = b - 1 \<or> v = b \<or> v = b + 1)
        \<and> \<not> (u = a \<and> v = b)"
      unfolding c by simp arith
    then show "c \<in> set (coord_8_neighbors n)"
      unfolding n c coord_8_neighbors_eq by auto
  qed
qed

lemma distinct_coord_4_neighbors: "distinct (coord_4_neighbors n)"
  by (cases n) (simp add: coord_4_neighbors_eq)

lemma distinct_coord_8_neighbors: "distinct (coord_8_neighbors n)"
  by (cases n) (simp add: coord_8_neighbors_eq)

lemma neighbor_manhattan:
  assumes "c \<in> set (coord_4_neighbors n) \<union> set (coord_8_neighbors n)"
  shows "\<bar>y_coord c - y_coord n\<bar> + \<bar>x_coord c - x_coord n\<bar> = 1
       \<or> \<bar>y_coord c - y_coord n\<bar> + \<bar>x_coord c - x_coord n\<bar> = 2"
  using assms unfolding set_coord_4_neighbors set_coord_8_neighbors x_coord_def y_coord_def
  by auto

text \<open>
  C8. Whatever cell \<open>n\<close> the neighbour generators are applied to, each coordinate \<open>c\<close>
  they produce is at Manhattan distance 1 or 2 from \<open>n\<close>; \<^verbatim>\<open>edge_weight\<close> returns the
  straight weight at distance 1 and the diagonal weight at distance 2, and it does not
  reach its assertion, in either order of the two arguments.
\<close>

theorem neighbor_edge_weight:
  assumes "c \<in> set (coord_4_neighbors n) \<union> set (coord_8_neighbors n)"
  shows "(\<bar>x_coord c - x_coord n\<bar> + \<bar>y_coord c - y_coord n\<bar> = 1
            \<or> \<bar>x_coord c - x_coord n\<bar> + \<bar>y_coord c - y_coord n\<bar> = 2)
       \<and> edge_weight cast n c =
            Inr (if \<bar>x_coord c - x_coord n\<bar> + \<bar>y_coord c - y_coord n\<bar> = 1
                 then kStraightEdgeWeight cast else kDiagonalEdgeWeight cast)
       \<and> edge_weight cast n c \<noteq> Inl AssertionFailed
       \<and> edge_weight cast c n \<noteq> Inl AssertionFailed"
proof -
  have d: "\<bar>y_coord c - y_coord n\<bar> + \<bar>x_coord c - x_coord n\<bar> = 1
       \<or> \<bar>y_coord c - y_coord n\<bar> + \<bar>x_coord c - x_coord n\<bar> = 2"
    using assms by (rule neighbor_manhattan)
  then have d': "\<bar>y_coord n - y_coord c\<bar> + \<bar>x_coord n - x_coord c\<bar> = 1
       \<or> \<bar>y_coord n - y_coord c\<bar> + \<bar>x_coord n - x_coord c\<bar> = 2"
    by (simp add: abs_minus_commute)
  from d have 1: "edge_weight cast n c =
            Inr (if \<bar>x_coord c - x_coord n\<bar> + \<bar>y_coord c - y_coord n\<bar> = 1
                 then kStraightEdgeWeight cast else kDiagonalEdgeWeight cast)"
    by (auto simp: edge_weight_def Let_def add.commute)
  from d' have 2: "edge_weight cast c n \<noteq> Inl AssertionFailed"
    by (auto simp: edge_weight_def Let_def)
  from d 1 2 show ?thesis by (auto simp: add.commute)
qed

theorem neighbor_edge_weight_witness:
  "(1, 2) \<in> set (coord_4_neighbors (1, 1)) \<union> set (coord_8_neighbors (1, 1))
   \<and> edge_weight cast_double (1, 1) (1, 2) = Inr 1
   \<and> (2, 2) \<in> set (coord_4_neighbors (1, 1)) \<union> set (coord_8_neighbors (1, 1))
   \<and> edge_weight cast_double (1, 1) (2, 2) = Inr (14143 / 10000)"
  using neighbor_edge_weight [of "(1, 2)" "(1, 1)" cast_double]
        neighbor_edge_weight [of "(2, 2)" "(1, 1)" cast_double]
  by (simp add: coord_4_neighbors_eq coord_8_neighbors_eq x_coord_def y_coord_def
        kStraightEdgeWeight_def kDiagonalEdgeWeight_def cast_double_def)

subsection \<open>Distance functions\<close>

lemma edge_weight_steps:
  "edge_weight cast a (fst a + 1, snd a) = Inr (kStraightEdgeWeight cast)"
  "edge_weight cast a (fst a + 1, snd a + 1) = Inr (kDiagonalEdgeWeight cast)"
  by (simp_all add: edge_weight_def x_coord_def y_coord_def)

lemma int32_id: "- 2147483648 \<le> v \<Longrightarrow> v < 2147483648 \<Longrightarrow> int32 v = v"
  by (simp add: int32_def)

lemma abs32_int32:
  assumes "\<bar>v\<bar> < 2147483648"
  shows "abs32 (int32 v) = \<bar>v\<bar>"
proof -
  from assms have "int32 v = v" by (intro int32_id) arith+
  moreover from assms have "int32 \<bar>v\<bar> = \<bar>v\<bar>" by (intro int32_id) arith+
  ultimately show ?thesis by (simp add: abs32_def)
qed

lemma abs_le_square: "\<bar>v\<bar> \<le> v * v" for v :: int
proof (cases "v = 0")
  case True
  then show ?thesis by simp
next
  case False
  then have "1 \<le> \<bar>v\<bar>" by arith
  then have "\<bar>v\<bar> * 1 \<le> \<bar>v\<bar> * \<bar>v\<bar>" by (intro mult_left_mono) simp_all
  then show ?thesis by (simp add: abs_mult_self_eq)
qed

lemma manhattan_distance_eq:
  assumes "\<bar>fst b - fst a\<bar> + \<bar>snd b - snd a\<bar> < 2147483648"
  shows "(manhattan_distance a b :: 'c::ring_1) = of_int (\<bar>fst b - fst a\<bar> + \<bar>snd b - snd a\<bar>)"
proof -
  from assms have x: "\<bar>fst b - fst a\<bar> < 2147483648" and y: "\<bar>snd b - snd a\<bar> < 2147483648"
    by arith+
  have "int32 (\<bar>fst b - fst a\<bar> + \<bar>snd b - snd a\<bar>) = \<bar>fst b - fst a\<bar> + \<bar>snd b - snd a\<bar>"
    using assms by (intro int32_id) arith+
  then show ?thesis
    by (simp add: manhattan_distance_def x_coord_def y_coord_def abs32_int32 [OF x]
          abs32_int32 [OF y])
qed

lemma diagonal_distance_eq:
  fixes cast :: "real \<Rightarrow> 'c::comm_ring_1"
  assumes x: "\<bar>fst b - fst a\<bar> < 2147483648" and y: "\<bar>snd b - snd a\<bar> < 2147483648"
  shows "diagonal_distance cast a b =
           kDiagonalEdgeWeight cast * of_int (min \<bar>fst b - fst a\<bar> \<bar>snd b - snd a\<bar>)
         + kStraightEdgeWeight cast *
             of_int (max \<bar>fst b - fst a\<bar> \<bar>snd b - snd a\<bar>
                      - min \<bar>fst b - fst a\<bar> \<bar>snd b - snd a\<bar>)"
proof -
  let ?dx = "\<bar>fst b - fst a\<bar>" and ?dy = "\<bar>snd b - snd a\<bar>"
  have "int32 (max ?dx ?dy - min ?dx ?dy) = max ?dx ?dy - min ?dx ?dy"
    using x y by (intro int32_id) arith+
  then show ?thesis
    by (simp only: diagonal_distance_def Let_def x_coord_def y_coord_def abs32_int32 [OF x]
          abs32_int32 [OF y] mult.commute)
qed

lemma duclidean_distance_eq:
  assumes "(fst b - fst a) * (fst b - fst a) + (snd b - snd a) * (snd b - snd a) < 2147483648"
  shows "duclidean_distance cast a b =
     Some (cast (sqrt ((of_int (fst b - fst a))\<^sup>2 + (of_int (snd b - snd a))\<^sup>2)))"
proof -
  let ?u = "fst b - fst a" and ?v = "snd b - snd a"
  have uu: "0 \<le> ?u * ?u" and vv: "0 \<le> ?v * ?v" by simp_all
  from assms uu vv have su: "?u * ?u < 2147483648" and sv: "?v * ?v < 2147483648" by arith+
  have x: "\<bar>?u\<bar> < 2147483648" using abs_le_square [of ?u] su by arith
  have y: "\<bar>?v\<bar> < 2147483648" using abs_le_square [of ?v] sv by arith
  have sq: "\<bar>?u\<bar> * \<bar>?u\<bar> = ?u * ?u" "\<bar>?v\<bar> * \<bar>?v\<bar> = ?v * ?v"
    by (simp_all add: abs_mult_self_eq)
  have 1: "int32 (?u * ?u) = ?u * ?u" using uu su by (intro int32_id) arith+
  have 2: "int32 (?v * ?v) = ?v * ?v" using vv sv by (intro int32_id) arith+
  have 3: "int32 (?u * ?u + ?v * ?v) = ?u * ?u + ?v * ?v"
    using uu vv assms by (intro int32_id) arith+
  have 4: "\<not> ?u * ?u + ?v * ?v < 0" using uu vv by arith
  have 5: "real_of_int (?u * ?u + ?v * ?v) = (of_int ?u)\<^sup>2 + (of_int ?v)\<^sup>2"
    by (simp add: power2_eq_square)
  show ?thesis
    unfolding duclidean_distance_def Let_def x_coord_def y_coord_def abs32_int32 [OF x]
      abs32_int32 [OF y] sq 1 2 3 5 using 4 by simp
qed

lemma cast_int_sqrt: "0 \<le> r \<Longrightarrow> cast_int (sqrt r) = \<lfloor>sqrt r\<rfloor>"
  by (simp add: cast_int_def)

text \<open>
  C9, as the code has it. Where the \<^verbatim>\<open>int\<close> computation does not overflow,
  \<^verbatim>\<open>manhattan_distance\<close> is the sum of the absolute coordinate differences (which must
  be below \<open>2^31\<close>), and \<^verbatim>\<open>diagonal_distance\<close> is the diagonal weight times the smaller
  absolute difference plus the straight weight times the excess of the larger one (both
  differences below \<open>2^31\<close>); the two weights are the constants \<^verbatim>\<open>edge_weight\<close> returns
  for a straight and for a diagonal step. Where the sum of the squared differences is
  below \<open>2^31\<close>, \<^verbatim>\<open>duclidean_distance\<close> is the square root of that sum converted to the
  cost type: the root itself for \<^verbatim>\<open>double\<close> (idealised as the reals), its integer part
  for \<^verbatim>\<open>int\<close>.
\<close>

theorem distance_functions:
  fixes a b :: Coord and cast :: "real \<Rightarrow> 'c::comm_ring_1"
  shows "(\<bar>fst b - fst a\<bar> + \<bar>snd b - snd a\<bar> < 2147483648 \<longrightarrow>
            (manhattan_distance a b :: 'c) = of_int (\<bar>fst b - fst a\<bar> + \<bar>snd b - snd a\<bar>))
    \<and> (\<bar>fst b - fst a\<bar> < 2147483648 \<and> \<bar>snd b - snd a\<bar> < 2147483648 \<longrightarrow>
          diagonal_distance cast a b =
             kDiagonalEdgeWeight cast * of_int (min \<bar>fst b - fst a\<bar> \<bar>snd b - snd a\<bar>)
           + kStraightEdgeWeight cast *
               of_int (max \<bar>fst b - fst a\<bar> \<bar>snd b - snd a\<bar>
                        - min \<bar>fst b - fst a\<bar> \<bar>snd b - snd a\<bar>))
    \<and> edge_weight cast a (fst a + 1, snd a) = Inr (kStraightEdgeWeight cast)
    \<and> edge_weight cast a (fst a + 1, snd a + 1) = Inr (kDiagonalEdgeWeight cast)
    \<and> ((fst b - fst a) * (fst b - fst a) + (snd b - snd a) * (snd b - snd a) < 2147483648 \<longrightarrow>
          duclidean_distance cast a b =
            Some (cast (sqrt ((of_int (fst b - fst a))\<^sup>2 + (of_int (snd b - snd a))\<^sup>2)))
          \<and> duclidean_distance cast_double a b =
            Some (sqrt ((of_int (fst b - fst a))\<^sup>2 + (of_int (snd b - snd a))\<^sup>2))
          \<and> duclidean_distance cast_int a b =
            Some \<lfloor>sqrt ((of_int (fst b - fst a))\<^sup>2 + (of_int (snd b - snd a))\<^sup>2)\<rfloor>)"
proof (intro conjI impI)
  assume "\<bar>fst b - fst a\<bar> + \<bar>snd b - snd a\<bar> < 2147483648"
  then show "(manhattan_distance a b :: 'c) = of_int (\<bar>fst b - fst a\<bar> + \<bar>snd b - snd a\<bar>)"
    by (rule manhattan_distance_eq)
next
  assume "\<bar>fst b - fst a\<bar> < 2147483648 \<and> \<bar>snd b - snd a\<bar> < 2147483648"
  then show "diagonal_distance cast a b =
             kDiagonalEdgeWeight cast * of_int (min \<bar>fst b - fst a\<bar> \<bar>snd b - snd a\<bar>)
           + kStraightEdgeWeight cast *
               of_int (max \<bar>fst b - fst a\<bar> \<bar>snd b - snd a\<bar>
                        - min \<bar>fst b - fst a\<bar> \<bar>snd b - snd a\<bar>)"
    by (intro diagonal_distance_eq) simp_all
next
  show "edge_weight cast a (fst a + 1, snd a) = Inr (kStraightEdgeWeight cast)"
    by (rule edge_weight_steps)
  show "edge_weight cast a (fst a + 1, snd a + 1) = Inr (kDiagonalEdgeWeight cast)"
    by (rule edge_weight_steps)
next
  assume h: "(fst b - fst a) * (fst b - fst a) + (snd b - snd a) * (snd b - snd a) < 2147483648"
  then show "duclidean_distance cast a b =
            Some (cast (sqrt ((of_int (fst b - fst a))\<^sup>2 + (of_int (snd b - snd a))\<^sup>2)))"
    by (rule duclidean_distance_eq)
  from h show "duclidean_distance cast_double a b =
            Some (sqrt ((of_int (fst b - fst a))\<^sup>2 + (of_int (snd b - snd a))\<^sup>2))"
    by (simp add: duclidean_distance_eq cast_double_def)
  from h show "duclidean_distance cast_int a b =
            Some \<lfloor>sqrt ((of_int (fst b - fst a))\<^sup>2 + (of_int (snd b - snd a))\<^sup>2)\<rfloor>"
    by (simp add: duclidean_distance_eq cast_int_sqrt)
qed

theorem distance_functions_witness:
  "\<bar>fst (3, 4) - fst (0, 0 :: int)\<bar> + \<bar>snd (3, 4) - snd (0 :: int, 0)\<bar> < (2147483648 :: int)
   \<and> \<bar>fst (3, 4) - fst (0, 0 :: int)\<bar> < (2147483648 :: int)
   \<and> \<bar>snd (3, 4) - snd (0 :: int, 0)\<bar> < (2147483648 :: int)
   \<and> (fst (3, 4) - fst (0, 0 :: int)) * (fst (3, 4) - fst (0, 0 :: int))
       + (snd (3, 4) - snd (0 :: int, 0)) * (snd (3, 4) - snd (0 :: int, 0))
       < (2147483648 :: int)
   \<and> (manhattan_distance (0, 0) (3, 4) :: real) = 7
   \<and> diagonal_distance cast_double (0, 0) (3, 4) = 3 * (14143 / 10000) + 1
   \<and> duclidean_distance cast_double (0, 0) (3, 4) = Some 5
   \<and> duclidean_distance cast_int (0, 0) (3, 4) = Some 5"
proof -
  have s: "sqrt 25 = 5" using real_sqrt_abs [of 5] by simp
  show ?thesis
    using distance_functions [of "(3, 4)" "(0, 0)" cast_double] s
    by (simp add: kDiagonalEdgeWeight_def kStraightEdgeWeight_def cast_double_def)
qed

text \<open>
  Between (-2000000000, 0) and (2000000000, 0) the difference overflows and
  \<^verbatim>\<open>manhattan_distance\<close> is 294967296, not 4000000000. Between (0, 0) and (50000, 0) the
  square overflows to a negative \<^verbatim>\<open>int\<close> and \<^verbatim>\<open>duclidean_distance\<close> is no number. For the
  cost type \<^verbatim>\<open>int\<close> the distance between (0, 0) and (1, 1) is 1, not the square root
  of 2.
\<close>

theorem distance_functions_counterexample:
  "(manhattan_distance (- 2000000000, 0) (2000000000, 0) :: real) = 294967296
   \<and> duclidean_distance cast_double (0, 0) (50000, 0) = None
   \<and> duclidean_distance cast_int (0, 0) (1, 1) = Some 1
   \<and> sqrt 2 \<noteq> 1"
proof -
  have 1: "(manhattan_distance (- 2000000000, 0) (2000000000, 0) :: real) = 294967296"
    by (simp add: manhattan_distance_def x_coord_def y_coord_def int32_def abs32_def)
  have 2: "duclidean_distance cast_double (0, 0) (50000, 0) = None"
    by (simp add: duclidean_distance_def x_coord_def y_coord_def int32_def abs32_def)
  have f: "\<lfloor>sqrt 2\<rfloor> = 1"
  proof (rule floor_unique)
    show "of_int 1 \<le> sqrt 2" by simp
    have "sqrt 2 < 2" by (rule real_less_lsqrt) simp_all
    then show "sqrt 2 < of_int 1 + 1" by simp
  qed
  have 3: "duclidean_distance cast_int (0, 0) (1, 1) = Some 1"
    by (simp add: duclidean_distance_def x_coord_def y_coord_def int32_def abs32_def
          cast_int_def f)
  have 4: "sqrt 2 \<noteq> 1"
    by simp
  from 1 2 3 4 show ?thesis by blast
qed

subsection \<open>Step weight constants\<close>

lemma sqrt2_bounds: "sqrt 2 < 14143 / 10000" "14142 / 10000 < sqrt 2"
  by (rule real_less_lsqrt; simp add: power2_eq_square)
     (rule real_less_rsqrt; simp add: power2_eq_square)

text \<open>
  C4, as the code has it. The diagonal step weight is the literal \<^verbatim>\<open>1.4143\<close> converted
  to the cost type. For the cost type \<^verbatim>\<open>double\<close> it is 1.4143, which lies above the
  square root of 2 by less than 0.0001; for the cost type \<^verbatim>\<open>int\<close> the conversion
  truncates it to 1. The straight step weight is 1 for both cost types.
\<close>

theorem step_weight_constants:
  "kDiagonalEdgeWeight cast_double = 14143 / 10000
   \<and> sqrt 2 < kDiagonalEdgeWeight cast_double
   \<and> kDiagonalEdgeWeight cast_double - sqrt 2 < 1 / 10000
   \<and> kStraightEdgeWeight cast_double = 1
   \<and> kDiagonalEdgeWeight cast_int = 1
   \<and> kStraightEdgeWeight cast_int = 1"
  using sqrt2_bounds
  by (simp add: kDiagonalEdgeWeight_def kStraightEdgeWeight_def cast_double_def cast_int_def)

text \<open>
  The diagonal weight is not the square root of 2, and it differs from 1.41421 by more
  than 0.00008: the fourth decimal is 3, not 2. For an integer cost type it is not even
  the value used for \<^verbatim>\<open>double\<close>.
\<close>

theorem diagonal_weight_counterexample:
  "kDiagonalEdgeWeight cast_double \<noteq> sqrt 2
   \<and> 8 / 100000 < \<bar>kDiagonalEdgeWeight cast_double - 141421 / 100000\<bar>
   \<and> kDiagonalEdgeWeight cast_int \<noteq> kDiagonalEdgeWeight cast_double"
  using sqrt2_bounds
  by (simp add: kDiagonalEdgeWeight_def cast_double_def cast_int_def)

subsection \<open>Edges\<close>

lemma passable_weight:
  "is_passable vm c \<Longrightarrow> \<exists>wt. weight vm c = Inr wt"
  by (auto simp: is_passable_def split: sum.splits)

lemma edges_loop_eq:
  assumes "set cs \<subseteq> set (coord_4_neighbors n) \<union> set (coord_8_neighbors n)"
  shows "edges_loop cast vm n cs es =
           Inr (es @ map (\<lambda>c. Edge n c (projr (weight vm c) * projr (edge_weight cast n c)))
                        (filter (is_passable vm) cs))"
  using assms
proof (induction cs arbitrary: es)
  case Nil
  then show ?case by simp
next
  case (Cons c cs)
  have nb: "c \<in> set (coord_4_neighbors n) \<union> set (coord_8_neighbors n)"
    using Cons.prems by simp
  have rest: "set cs \<subseteq> set (coord_4_neighbors n) \<union> set (coord_8_neighbors n)"
    using Cons.prems by simp
  obtain sw where sw: "edge_weight cast n c = Inr sw"
    using neighbor_manhattan [OF nb] by (auto simp: edge_weight_def Let_def)
  show ?case
  proof (cases "is_passable vm c")
    case True
    then have "\<exists>wt. weight vm c = Inr wt"
      by (rule passable_weight)
    then obtain wt where wt: "weight vm c = Inr wt" ..
    show ?thesis
      using True by (simp add: edge_cost_def wt sw Cons.IH [OF rest])
  next
    case False
    then show ?thesis by (simp add: Cons.IH [OF rest])
  qed
qed

lemma edges_eq:
  "edges cast m n =
     Inr (map (\<lambda>c. Edge n c (projr (weight (vertex_matrix m) c) * projr (edge_weight cast n c)))
           (filter (is_passable (vertex_matrix m))
              (if enable_diagonal m then coord_8_neighbors n else coord_4_neighbors n)))"
  by (simp add: edges_def edges_loop_eq)

lemma neighbor_step:
  assumes "c \<in> set (coord_4_neighbors n) \<union> set (coord_8_neighbors n)"
  shows "\<exists>sw. edge_weight cast n c = Inr sw"
  using neighbor_manhattan [OF assms] by (auto simp: edge_weight_def Let_def)

lemma neighbor_step_weight:
  assumes "c \<in> set (coord_4_neighbors n) \<union> set (coord_8_neighbors n)"
  shows "edge_weight cast n c =
     Inr (if \<bar>x_coord c - x_coord n\<bar> + \<bar>y_coord c - y_coord n\<bar> = 1
          then kStraightEdgeWeight cast else kDiagonalEdgeWeight cast)"
  using neighbor_manhattan [OF assms] by (auto simp: edge_weight_def Let_def add.commute)

lemma four_neighbor_straight:
  assumes "c \<in> set (coord_4_neighbors n)"
  shows "\<bar>x_coord c - x_coord n\<bar> + \<bar>y_coord c - y_coord n\<bar> = 1"
  using assms unfolding set_coord_4_neighbors x_coord_def y_coord_def by simp

text \<open>
  C3. \<^verbatim>\<open>edges(n)\<close> returns normally for every coordinate \<open>n\<close>. The targets of the
  returned edges are, in order, the neighbours of \<open>n\<close> that \<^verbatim>\<open>is_passable\<close> accepts, taken
  from the eight neighbours when diagonal movement is enabled and from the four
  axis-aligned neighbours when it is not. Every returned edge starts at \<open>n\<close>; its
  weight is the terrain weight of its target times the straight weight when the target
  is at Manhattan distance 1, and times the diagonal weight otherwise, the terrain
  weight being the entry of the target in the row-major matrix, which is not negative
  and lies in the grid; the target is at
  Manhattan distance 1, or, with diagonal movement enabled only, one step away in both
  coordinates. The eight neighbours are the eight distinct cells at Chebyshev distance
  1, the four neighbours the four distinct cells at Manhattan distance 1.
\<close>

theorem edges_spec:
  fixes m :: "('c::{zero,ord,times}) GridMap"
  shows "\<exists>es. edges cast m n = Inr es
    \<and> map edge_to es =
        filter (is_passable (vertex_matrix m))
          (if enable_diagonal m then coord_8_neighbors n else coord_4_neighbors n)
    \<and> (\<forall>e \<in> set es. edge_from e = n
          \<and> (\<exists>wt. weight (vertex_matrix m) (edge_to e) = Inr wt
                \<and> vm_in_grid (vertex_matrix m) (edge_to e) \<and> 0 \<le> wt
                \<and> wt = vm_matrix (vertex_matrix m)
                           ! nat (y_coord (edge_to e) * vm_w (vertex_matrix m)
                                  + x_coord (edge_to e))
                \<and> edge_cost_of e =
                    wt * (if \<bar>x_coord (edge_to e) - x_coord n\<bar>
                              + \<bar>y_coord (edge_to e) - y_coord n\<bar> = 1
                          then kStraightEdgeWeight cast else kDiagonalEdgeWeight cast))
          \<and> (\<bar>x_coord (edge_to e) - x_coord n\<bar> + \<bar>y_coord (edge_to e) - y_coord n\<bar> = 1
               \<or> enable_diagonal m
                  \<and> \<bar>x_coord (edge_to e) - x_coord n\<bar> = 1
                  \<and> \<bar>y_coord (edge_to e) - y_coord n\<bar> = 1))
    \<and> set (coord_8_neighbors n) = {c. chebyshev_distance n c = 1}
    \<and> distinct (coord_8_neighbors n) \<and> length (coord_8_neighbors n) = 8
    \<and> set (coord_4_neighbors n) = {c. \<bar>x_coord c - x_coord n\<bar> + \<bar>y_coord c - y_coord n\<bar> = 1}
    \<and> distinct (coord_4_neighbors n) \<and> length (coord_4_neighbors n) = 4"
proof -
  let ?nb = "if enable_diagonal m then coord_8_neighbors n else coord_4_neighbors n"
  let ?keep = "filter (is_passable (vertex_matrix m)) ?nb"
  let ?es = "map (\<lambda>c. Edge n c (projr (weight (vertex_matrix m) c) * projr (edge_weight cast n c))) ?keep"
  have 1: "edges cast m n = Inr ?es" by (rule edges_eq)
  have 2: "map edge_to ?es = ?keep" by (simp add: comp_def)
  have 3: "edge_from e = n
          \<and> (\<exists>wt. weight (vertex_matrix m) (edge_to e) = Inr wt
                \<and> vm_in_grid (vertex_matrix m) (edge_to e) \<and> 0 \<le> wt
                \<and> wt = vm_matrix (vertex_matrix m)
                           ! nat (y_coord (edge_to e) * vm_w (vertex_matrix m)
                                  + x_coord (edge_to e))
                \<and> edge_cost_of e =
                    wt * (if \<bar>x_coord (edge_to e) - x_coord n\<bar>
                              + \<bar>y_coord (edge_to e) - y_coord n\<bar> = 1
                          then kStraightEdgeWeight cast else kDiagonalEdgeWeight cast))
          \<and> (\<bar>x_coord (edge_to e) - x_coord n\<bar> + \<bar>y_coord (edge_to e) - y_coord n\<bar> = 1
               \<or> enable_diagonal m
                  \<and> \<bar>x_coord (edge_to e) - x_coord n\<bar> = 1
                  \<and> \<bar>y_coord (edge_to e) - y_coord n\<bar> = 1)" if "e \<in> set ?es" for e
  proof -
    from that obtain c where c: "c \<in> set ?keep"
      and e: "e = Edge n c (projr (weight (vertex_matrix m) c) * projr (edge_weight cast n c))"
      by auto
    from c have nb: "c \<in> set (coord_4_neighbors n) \<union> set (coord_8_neighbors n)"
      by (auto split: if_splits)
    from c have pc: "is_passable (vertex_matrix m) c" by simp
    then have "\<exists>wt. weight (vertex_matrix m) c = Inr wt"
      by (rule passable_weight)
    then obtain wt where wt: "weight (vertex_matrix m) c = Inr wt" ..
    from pc wt have nonneg: "0 \<le> wt" by (simp add: is_passable_def)
    from wt have grid: "vm_in_grid (vertex_matrix m) c"
      and stored: "wt = vm_matrix (vertex_matrix m)
                           ! nat (y_coord c * vm_w (vertex_matrix m) + x_coord c)"
      by (auto simp: weight_def split: if_splits)
    note sw = neighbor_step_weight [OF nb, of cast]
    have d: "\<bar>x_coord c - x_coord n\<bar> + \<bar>y_coord c - y_coord n\<bar> = 1
               \<or> enable_diagonal m \<and> \<bar>x_coord c - x_coord n\<bar> = 1 \<and> \<bar>y_coord c - y_coord n\<bar> = 1"
    proof (cases "enable_diagonal m")
      case False
      with c have "c \<in> set (coord_4_neighbors n)" by simp
      then show ?thesis by (simp add: four_neighbor_straight)
    next
      case True
      with c have "c \<in> set (coord_8_neighbors n)" by simp
      then have "max \<bar>x_coord c - x_coord n\<bar> \<bar>y_coord c - y_coord n\<bar> = 1"
        unfolding set_coord_8_neighbors x_coord_def y_coord_def by simp
      with True show ?thesis by arith
    qed
    show ?thesis using d nonneg grid stored by (simp add: e wt sw)
  qed
  have 4: "set (coord_8_neighbors n) = {c. chebyshev_distance n c = 1}"
    by (simp add: set_coord_8_neighbors chebyshev_distance_def x_coord_def y_coord_def)
  have 5: "set (coord_4_neighbors n) = {c. \<bar>x_coord c - x_coord n\<bar> + \<bar>y_coord c - y_coord n\<bar> = 1}"
    by (simp add: set_coord_4_neighbors x_coord_def y_coord_def)
  have 6: "length (coord_8_neighbors n) = 8" "length (coord_4_neighbors n) = 4"
    by (simp_all add: coord_8_neighbors_def coord_4_neighbors_def)
  show ?thesis
    by (intro exI [of _ ?es] conjI ballI 1 2 4 5 6
          distinct_coord_4_neighbors distinct_coord_8_neighbors)
       (use 3 in \<open>simp_all only:\<close>)
qed

theorem edges_spec_witness:
  "(\<exists>m. make_GridMap 3 3 [1, 1, 1, 1, -1, 1, 1, 1, 1::real] False = Inr m
     \<and> edges cast_double m (0, 0) = Inr [Edge (0, 0) (1, 0) 1, Edge (0, 0) (0, 1) 1]
     \<and> edges cast_double m (1, 0) = Inr [Edge (1, 0) (0, 0) 1, Edge (1, 0) (2, 0) 1])
   \<and> (\<exists>m. make_GridMap 3 3 [1, 2, 1, 1, 1, 1, 1, -1, 3::real] True = Inr m
     \<and> edges cast_double m (1, 1) =
         Inr [Edge (1, 1) (0, 0) (14143 / 10000), Edge (1, 1) (1, 0) 2,
              Edge (1, 1) (2, 0) (14143 / 10000), Edge (1, 1) (0, 1) 1,
              Edge (1, 1) (2, 1) 1, Edge (1, 1) (0, 2) (14143 / 10000),
              Edge (1, 1) (2, 2) (42429 / 10000)])"
  using edges_spec [of cast_double "\<lparr>vertex_matrix = \<lparr>vm_w = 3, vm_h = 3, vm_matrix = [1, 1, 1, 1, -1, 1, 1, 1, 1]\<rparr>,
     stats = make_SearchStats, node_array = make_GridNodeArray 3 3, open_list = [],
     enable_diagonal = False\<rparr>" "(0, 0)"]
    edges_spec [of cast_double "\<lparr>vertex_matrix = \<lparr>vm_w = 3, vm_h = 3, vm_matrix = [1, 2, 1, 1, 1, 1, 1, -1, 3]\<rparr>,
     stats = make_SearchStats, node_array = make_GridNodeArray 3 3, open_list = [],
     enable_diagonal = True\<rparr>" "(1, 1)"]
  by (simp add: make_GridMap_def make_VertexMatrix_def edges_def coord_4_neighbors_eq
        coord_8_neighbors_eq is_passable_def weight_def vm_in_grid_def x_coord_def y_coord_def
        edge_cost_def edge_weight_def kStraightEdgeWeight_def kDiagonalEdgeWeight_def
        cast_double_def)

subsection \<open>Heap operations keep the elements\<close>

declare sift_up.simps [simp del] sift_down.simps [simp del]

lemma length_swap [simp]: "length (swap xs i j) = length xs"
  by (simp add: swap_def)

lemma mset_swap [simp]: "i < length xs \<Longrightarrow> j < length xs \<Longrightarrow> mset (swap xs i j) = mset xs"
  by (simp add: swap_def mset_swap)

lemma mset_sift_up [simp]: "mset (sift_up key xs i) = mset xs"
proof (induction key xs i rule: sift_up.induct)
  case (1 key xs i)
  show ?case
  proof (cases "i = 0 \<or> length xs \<le> i")
    case True
    then show ?thesis by (subst sift_up.simps) simp
  next
    case False
    then have lt: "i < length xs" "heap_parent i < length xs"
      by (auto simp: heap_parent_def)
    show ?thesis
    proof (cases "key (xs ! i) < key (xs ! heap_parent i)")
      case True
      with False 1 lt show ?thesis by (subst sift_up.simps) simp
    next
      case nless: False
      with False show ?thesis by (subst sift_up.simps) simp
    qed
  qed
qed

lemma smaller_child_cases:
  "smaller_child key xs j s = s \<or> (smaller_child key xs j s = j \<and> j < length xs)"
  by (simp add: smaller_child_def)

lemma smaller_child2_bound:
  assumes "i < length xs"
  shows "smaller_child key xs (2 * i + 2) (smaller_child key xs (2 * i + 1) i) < length xs"
  using assms by (simp add: smaller_child_def)

lemma mset_sift_down [simp]: "mset (sift_down key xs i) = mset xs"
proof (induction key xs i rule: sift_down.induct)
  case (1 key xs i)
  let ?s = "smaller_child key xs (2 * i + 2) (smaller_child key xs (2 * i + 1) i)"
  show ?case
  proof (cases "?s \<noteq> i \<and> i < length xs")
    case True
    then have "?s < length xs" using smaller_child2_bound by blast
    with True 1 show ?thesis by (subst sift_down.simps) (simp add: Let_def)
  next
    case False
    then show ?thesis by (subst sift_down.simps) (auto simp: Let_def)
  qed
qed

lemma mset_insert_q: "mset (insert_q key q a) = mset q + {#a#}"
  by (simp add: insert_q_def)

subsection \<open>Opening, closing and reopening a node\<close>

lemma has_node_node_update [simp]: "has_node (node_update c upd na) d = has_node na d"
  by (simp add: has_node_def node_update_def)

lemma na_nodes_node_update:
  "na_nodes (node_update c upd na) d = (if d = c then upd (na_nodes na c) else na_nodes na d)"
  by (simp add: node_update_def)

lemma open_node_result:
  assumes "has_node (node_array m) n" and "has_node (node_array m) p"
  shows "\<exists>m'. open_node n g h p m = Inr m'
     \<and> node_array m' =
         node_update n (\<lambda>r. \<lparr>state = open_st, g_cost = g, f_cost = g + h, parent = Some p\<rparr>)
           (node_array m)
     \<and> mset (open_list m') = mset (open_list m) + {#n#}
     \<and> stats m' = (stats m)\<lparr>nodes_opened := nodes_opened (stats m) + 1\<rparr>
     \<and> vertex_matrix m' = vertex_matrix m \<and> enable_diagonal m' = enable_diagonal m"
  using assms
  by (simp add: open_node_def Let_def mset_insert_q node_update_def fun_eq_iff)

lemma reopen_node_result:
  assumes "has_node (node_array m) n" and "has_node (node_array m) p"
  shows "\<exists>m'. reopen_node n g h p m = Inr m'
     \<and> node_array m' =
         node_update n (\<lambda>r. \<lparr>state = open_st, g_cost = g, f_cost = g + h, parent = Some p\<rparr>)
           (node_array m)
     \<and> mset (open_list m') = mset (open_list m) + {#n#}
     \<and> stats m' = (stats m)\<lparr>nodes_reopened := nodes_reopened (stats m) + 1\<rparr>
     \<and> vertex_matrix m' = vertex_matrix m \<and> enable_diagonal m' = enable_diagonal m"
  using assms
  by (simp add: reopen_node_def Let_def mset_insert_q node_update_def fun_eq_iff)

lemma close_front_result:
  assumes "close_front_open_node m = Inr (c, m')"
  shows "open_list m \<noteq> [] \<and> c = hd (open_list m)
     \<and> node_array m' = node_update c (\<lambda>r. r\<lparr>state := closed_st\<rparr>) (node_array m)
     \<and> mset (open_list m') = mset (open_list m) - {#c#}
     \<and> stats m' = (stats m)\<lparr>nodes_closed := nodes_closed (stats m) + 1\<rparr>
     \<and> vertex_matrix m' = vertex_matrix m \<and> enable_diagonal m' = enable_diagonal m"
proof -
  let ?q = "open_list m"
  from assms have ne: "?q \<noteq> []"
    by (auto simp: close_front_open_node_def remove_front_def split: if_splits)
  have ms: "mset ((butlast ?q)[0 := last ?q]) = mset ?q - {#hd ?q#}"
  proof (cases "butlast ?q = []")
    case True
    with ne have "?q = [hd ?q]"
      by (metis append_butlast_last_id append_Nil list.sel(1))
    then show ?thesis using True by (metis add_mset_remove_trivial list_update_nonempty mset.simps(1) mset.simps(2))
  next
    case False
    then obtain y ys where b: "butlast ?q = y # ys" by (cases "butlast ?q") auto
    with ne have q: "?q = y # ys @ [last ?q]"
      by (metis append_butlast_last_id append_Cons)
    have "hd ?q = y" by (subst q) simp
    moreover have "mset ?q = add_mset y (add_mset (last ?q) (mset ys))"
      by (subst q) simp
    ultimately show ?thesis by (simp add: b)
  qed
  from assms ne ms show ?thesis
    by (auto simp: close_front_open_node_def remove_front_def Let_def)
qed

text \<open>
  C6. A call \<^verbatim>\<open>open_node(n, g, h, p)\<close> on a cell \<open>n\<close> of the grid, with a parent \<open>p\<close> in the
  grid, returns normally, whatever the state of \<open>n\<close> (so in particular for an
  unexplored \<open>n\<close>). Afterwards the record of \<open>n\<close> has g-cost \<open>g\<close>, f-cost \<open>g + h\<close>,
  parent \<open>p\<close> and state open, the open list holds one more entry, which is \<open>n\<close>, and
  the counter of opened nodes has grown by exactly 1 while the other counters are
  unchanged.
\<close>

theorem open_node_effect:
  fixes m :: "('c::{plus,linorder}) GridMap"
  assumes "has_node (node_array m) n" and "has_node (node_array m) p"
  shows "\<exists>m'. open_node n g h p m = Inr m'
     \<and> na_nodes (node_array m') n =
         \<lparr>state = open_st, g_cost = g, f_cost = g + h, parent = Some p\<rparr>
     \<and> mset (open_list m') = mset (open_list m) + {#n#}
     \<and> nodes_opened (stats m') = nodes_opened (stats m) + 1
     \<and> nodes_reopened (stats m') = nodes_reopened (stats m)
     \<and> nodes_closed (stats m') = nodes_closed (stats m)
     \<and> nodes_priority_increased (stats m') = nodes_priority_increased (stats m)"
proof -
  from open_node_result [OF assms, of g h]
  obtain m' where r: "open_node n g h p m = Inr m'"
    "node_array m' =
         node_update n (\<lambda>r. \<lparr>state = open_st, g_cost = g, f_cost = g + h, parent = Some p\<rparr>)
           (node_array m)"
    "mset (open_list m') = mset (open_list m) + {#n#}"
    "stats m' = (stats m)\<lparr>nodes_opened := nodes_opened (stats m) + 1\<rparr>"
    by blast
  show ?thesis
    by (rule exI [of _ m']) (simp add: r na_nodes_node_update)
qed

theorem open_node_effect_witness:
  "\<exists>m. make_GridMap 3 3 [1, 1, 1, 1, 1, 1, 1, 1, 1::real] True = Inr m
     \<and> has_node (node_array m) (1, 1) \<and> has_node (node_array m) (0, 0)
     \<and> state (na_nodes (node_array m) (1, 1)) = unexplored
     \<and> (\<exists>m'. open_node (1, 1) 5 2 (0, 0) m = Inr m'
           \<and> na_nodes (node_array m') (1, 1) =
               \<lparr>state = open_st, g_cost = 5, f_cost = 7, parent = Some (0, 0)\<rparr>
           \<and> open_list m' = [(1, 1)]
           \<and> nodes_opened (stats m') = 1)"
  using open_node_effect [of "\<lparr>vertex_matrix = \<lparr>vm_w = 3, vm_h = 3, vm_matrix = [1, 1, 1, 1, 1, 1, 1, 1, 1::real]\<rparr>,
         stats = make_SearchStats, node_array = make_GridNodeArray 3 3, open_list = [],
         enable_diagonal = True\<rparr>" "(1, 1)" "(0, 0)" 5 2]
  by (simp add: make_GridMap_def make_VertexMatrix_def make_GridNodeArray_def
        make_SearchStats_def has_node_def x_coord_def y_coord_def open_node_def Let_def
        node_update_def insert_q_def sift_up.simps)

text \<open>
  C10. For every cell, costs and parent, \<^verbatim>\<open>open_node\<close> and \<^verbatim>\<open>reopen_node\<close> either both
  fail on a coordinate outside the grid, or both return, with the same node store (the
  record of \<open>n\<close> rewritten to parent \<open>p\<close>, g-cost \<open>g\<close>, f-cost \<open>g + h\<close>, state open, every
  other record untouched) and the same open list (one insertion of \<open>n\<close>); the results
  differ only in the statistics, where \<^verbatim>\<open>open_node\<close> increments the opened counter and
  \<^verbatim>\<open>reopen_node\<close> the reopened counter.
\<close>

theorem open_reopen_same_updates:
  fixes m :: "('c::{plus,linorder}) GridMap"
  shows "(open_node n g h p m = Inl OutOfBounds \<and> reopen_node n g h p m = Inl OutOfBounds)
     \<or> (\<exists>m1 m2. open_node n g h p m = Inr m1 \<and> reopen_node n g h p m = Inr m2
           \<and> node_array m1 = node_array m2
           \<and> node_array m1 =
               node_update n
                 (\<lambda>r. \<lparr>state = open_st, g_cost = g, f_cost = g + h, parent = Some p\<rparr>)
                 (node_array m)
           \<and> open_list m1 = open_list m2
           \<and> mset (open_list m1) = mset (open_list m) + {#n#}
           \<and> vertex_matrix m1 = vertex_matrix m2 \<and> enable_diagonal m1 = enable_diagonal m2
           \<and> stats m1 = (stats m)\<lparr>nodes_opened := nodes_opened (stats m) + 1\<rparr>
           \<and> stats m2 = (stats m)\<lparr>nodes_reopened := nodes_reopened (stats m) + 1\<rparr>)"
proof (cases "has_node (node_array m) n \<and> has_node (node_array m) p")
  case False
  then show ?thesis by (auto simp: open_node_def reopen_node_def)
next
  case True
  then show ?thesis
    by (intro disjI2)
       (simp add: open_node_def reopen_node_def Let_def mset_insert_q node_update_def fun_eq_iff)
qed

theorem open_reopen_same_updates_witness:
  "\<exists>m m1 m2. make_GridMap 3 3 [1, 1, 1, 1, 1, 1, 1, 1, 1::real] True = Inr m
     \<and> open_node (1, 1) 5 2 (0, 0) m = Inr m1
     \<and> reopen_node (1, 1) 5 2 (0, 0) m = Inr m2
     \<and> node_array m1 = node_array m2 \<and> open_list m1 = open_list m2
     \<and> nodes_opened (stats m1) = 1 \<and> nodes_reopened (stats m1) = 0
     \<and> nodes_opened (stats m2) = 0 \<and> nodes_reopened (stats m2) = 1"
  using open_reopen_same_updates [of "(1, 1)" 5 2 "(0, 0)" "\<lparr>vertex_matrix = \<lparr>vm_w = 3, vm_h = 3, vm_matrix = [1, 1, 1, 1, 1, 1, 1, 1, 1::real]\<rparr>,
         stats = make_SearchStats, node_array = make_GridNodeArray 3 3, open_list = [],
         enable_diagonal = True\<rparr>"]
  by (simp add: make_GridMap_def make_VertexMatrix_def make_GridNodeArray_def
        make_SearchStats_def has_node_def x_coord_def y_coord_def open_node_def
        reopen_node_def Let_def)

text \<open>
  C7. A cell \<open>a\<close> is opened with g-cost 5, the next front removal closes it, and it is
  reopened with g-cost 3. Then the reopening returns normally; the cell is open after
  the first call, closed after the second and open again after the third; its stored
  g-cost is 3; the reopening adds exactly 1 to the reopened counter and leaves the
  opened counter as it was, which is one above its value before the scenario.
\<close>

theorem reopen_scenario:
  fixes m :: "('c::{plus,linorder,numeral}) GridMap"
  assumes "has_node (node_array m) a" and "has_node (node_array m) p"
    and "has_node (node_array m) p'"
    and "open_node a 5 h p m = Inr m1"
    and "close_front_open_node m1 = Inr (a, m2)"
  shows "\<exists>m3. reopen_node a 3 h' p' m2 = Inr m3
     \<and> state (na_nodes (node_array m1) a) = open_st
     \<and> g_cost (na_nodes (node_array m1) a) = 5
     \<and> state (na_nodes (node_array m2) a) = closed_st
     \<and> state (na_nodes (node_array m3) a) = open_st
     \<and> g_cost (na_nodes (node_array m3) a) = 3
     \<and> nodes_reopened (stats m3) = nodes_reopened (stats m2) + 1
     \<and> nodes_opened (stats m3) = nodes_opened (stats m2)
     \<and> nodes_opened (stats m2) = nodes_opened (stats m) + 1"
proof -
  from open_node_result [OF assms(1,2), of 5 h] assms(4)
  have m1: "node_array m1 =
         node_update a (\<lambda>r. \<lparr>state = open_st, g_cost = 5, f_cost = 5 + h, parent = Some p\<rparr>)
           (node_array m)"
    "stats m1 = (stats m)\<lparr>nodes_opened := nodes_opened (stats m) + 1\<rparr>"
    by auto
  from close_front_result [OF assms(5)]
  have m2: "node_array m2 = node_update a (\<lambda>r. r\<lparr>state := closed_st\<rparr>) (node_array m1)"
    "stats m2 = (stats m1)\<lparr>nodes_closed := nodes_closed (stats m1) + 1\<rparr>"
    by auto
  have b: "has_node (node_array m2) a" "has_node (node_array m2) p'"
    using assms(1,3) by (simp_all add: m1 m2)
  from reopen_node_result [OF b, of 3 h']
  obtain m3 where m3: "reopen_node a 3 h' p' m2 = Inr m3"
    "node_array m3 =
         node_update a (\<lambda>r. \<lparr>state = open_st, g_cost = 3, f_cost = 3 + h', parent = Some p'\<rparr>)
           (node_array m2)"
    "stats m3 = (stats m2)\<lparr>nodes_reopened := nodes_reopened (stats m2) + 1\<rparr>"
    by blast
  show ?thesis
    by (rule exI [of _ m3]) (simp add: m1 m2 m3 na_nodes_node_update)
qed

theorem reopen_scenario_witness:
  "\<exists>m m1 m2. make_GridMap 3 3 [1, 1, 1, 1, 1, 1, 1, 1, 1::real] True = Inr m
     \<and> has_node (node_array m) (1, 1) \<and> has_node (node_array m) (0, 0)
     \<and> open_node (1, 1) 5 2 (0, 0) m = Inr m1
     \<and> close_front_open_node m1 = Inr ((1, 1), m2)
     \<and> (\<exists>m3. reopen_node (1, 1) 3 2 (0, 0) m2 = Inr m3
          \<and> state (na_nodes (node_array m2) (1, 1)) = closed_st
          \<and> state (na_nodes (node_array m3) (1, 1)) = open_st
          \<and> g_cost (na_nodes (node_array m3) (1, 1)) = 3
          \<and> nodes_reopened (stats m3) = 1
          \<and> nodes_opened (stats m3) = 1)"
proof -
  define m :: "real GridMap" where "m = \<lparr>vertex_matrix = \<lparr>vm_w = 3, vm_h = 3, vm_matrix = [1, 1, 1, 1, 1, 1, 1, 1, 1::real]\<rparr>,
         stats = make_SearchStats, node_array = make_GridNodeArray 3 3, open_list = [],
         enable_diagonal = True\<rparr>"
  have mk: "make_GridMap 3 3 [1, 1, 1, 1, 1, 1, 1, 1, 1::real] True = Inr m"
    by (simp add: m_def make_GridMap_def make_VertexMatrix_def)
  have hn: "has_node (node_array m) (1, 1)" "has_node (node_array m) (0, 0)"
    by (simp_all add: m_def make_GridNodeArray_def has_node_def x_coord_def y_coord_def)
  obtain m1 where m1: "open_node (1, 1) 5 2 (0, 0) m = Inr m1"
    and q1: "open_list m1 = [(1, 1)]"
    using hn by (simp add: open_node_def Let_def insert_q_def sift_up.simps m_def)
  obtain m2 where m2: "close_front_open_node m1 = Inr ((1, 1), m2)"
    by (simp add: close_front_open_node_def remove_front_def q1 Let_def)
  from reopen_scenario [OF hn(1) hn(2) hn(2) m1 m2, of 2]
  obtain m3 where m3: "reopen_node (1, 1) 3 2 (0, 0) m2 = Inr m3"
     "state (na_nodes (node_array m2) (1, 1)) = closed_st"
     "state (na_nodes (node_array m3) (1, 1)) = open_st"
     "g_cost (na_nodes (node_array m3) (1, 1)) = 3"
     "nodes_reopened (stats m3) = nodes_reopened (stats m2) + 1"
     "nodes_opened (stats m3) = nodes_opened (stats m2)"
     "nodes_opened (stats m2) = nodes_opened (stats m) + 1"
    by blast
  have s2: "nodes_reopened (stats m2) = 0"
    using m1 m2 hn
    by (auto simp: open_node_def close_front_open_node_def remove_front_def Let_def m_def
          make_SearchStats_def split: if_splits)
  have s0: "nodes_opened (stats m) = 0"
    by (simp add: m_def make_SearchStats_def)
  show ?thesis
    using mk hn m1 m2 m3 s2 s0 by (intro exI [of _ m] exI [of _ m1] exI [of _ m2]) simp
qed





lemmas eval_defs =
  make_GridMap_def make_VertexMatrix_def make_GridNodeArray_def make_SearchStats_def
  has_node_def x_coord_def y_coord_def open_node_def reopen_node_def
  close_front_open_node_def increase_node_priority_def increase_priority_def
  remove_front_def insert_q_def node_update_def f_of_def swap_def smaller_child_def Let_def
  heap_parent_def open_node_available_def is_empty_def sift_up.simps sift_down.simps


subsection \<open>Path extraction\<close>

lemma parent_chain_state_update:
  "parent_chain (node_update c (\<lambda>r. r\<lparr>state := s\<rparr>) na) n cs r = parent_chain na n cs r"
  by (induction cs arbitrary: n) (auto simp: na_nodes_node_update split: option.splits)

lemma get_path_loop_chain:
  assumes "parent_chain na p cs r"
  shows "get_path_loop na p path =
           Some (Inr (path @ cs, r, fold (\<lambda>c. node_update c (\<lambda>r. r\<lparr>state := result\<rparr>)) cs na))"
  using assms
proof (induction cs arbitrary: na p path)
  case Nil
  then show ?case by (subst get_path_loop.simps) simp
next
  case (Cons c cs)
  from Cons.prems obtain q where c: "p = c" "has_node na c"
    "parent (na_nodes na c) = Some q" "q \<noteq> c" "parent_chain na q cs r"
    by (auto split: option.splits)
  let ?na = "node_update c (\<lambda>r. r\<lparr>state := result\<rparr>) na"
  have "parent_chain ?na q cs r"
    using c(5) by (simp add: parent_chain_state_update)
  from Cons.IH [OF this, of "path @ [c]"] c(1-4) show ?case
    by (subst get_path_loop.simps) simp
qed

lemma na_nodes_fold_result:
  "na_nodes (fold (\<lambda>c. node_update c (\<lambda>r. r\<lparr>state := result\<rparr>)) cs na) d =
     (if d \<in> set cs then (na_nodes na d)\<lparr>state := result\<rparr> else na_nodes na d)"
  by (induction cs arbitrary: na) (auto simp: na_nodes_node_update)

lemma dims_fold_result:
  "na_w (fold (\<lambda>c. node_update c (\<lambda>r. r\<lparr>state := result\<rparr>)) cs na) = na_w na
   \<and> na_h (fold (\<lambda>c. node_update c (\<lambda>r. r\<lparr>state := result\<rparr>)) cs na) = na_h na"
  by (induction cs arbitrary: na) (auto simp: node_update_def)

lemma parent_chain_links:
  assumes "parent_chain na n cs r"
  shows "successively (\<lambda>a b. parent (na_nodes na a) = Some b) (cs @ [r])
     \<and> hd (cs @ [r]) = n \<and> r \<notin> set cs \<and> set cs \<subseteq> {c. has_node na c} \<and> has_node na r
     \<and> parent (na_nodes na r) = Some r"
  using assms
proof (induction cs arbitrary: n)
  case Nil
  then show ?case by simp
next
  case (Cons c cs)
  from Cons.prems obtain q where c: "n = c" "has_node na c"
    "parent (na_nodes na c) = Some q" "q \<noteq> c" "parent_chain na q cs r"
    by (auto split: option.splits)
  note ih = Cons.IH [OF c(5)]
  from ih have hd: "hd (cs @ [r]) = q" by simp
  have "successively (\<lambda>a b. parent (na_nodes na a) = Some b) (c # cs @ [r])"
  proof (cases cs)
    case Nil
    with hd c show ?thesis by simp
  next
    case (Cons d ds)
    with hd c ih show ?thesis by simp
  qed
  moreover have "c \<noteq> r" using ih c(3,4) by auto
  ultimately show ?case using ih c by auto
qed

lemma get_path_chain:
  assumes "parent_chain (node_array m) n cs r"
  shows "get_path n m =
     Some (Inr (cs, m\<lparr>node_array :=
       node_update r (\<lambda>r. r\<lparr>state := start\<rparr>)
         (node_update n (\<lambda>r. r\<lparr>state := goal\<rparr>)
            (fold (\<lambda>c. node_update c (\<lambda>r. r\<lparr>state := result\<rparr>)) cs (node_array m)))\<rparr>))"
  using get_path_loop_chain [OF assms, of "[]"] by (simp add: get_path_def)

lemma ex_run_1:
  "\<exists>m0 m. make_GridMap 3 3 [1, 1, 1, 1, 1, 1, 1, 1, 1::real] True = Inr m0
     \<and> run [Open (0, 0) 0 2 (0, 0), CloseFront, Open (1, 1) 1 1 (0, 0), CloseFront,
             Open (2, 2) 2 0 (1, 1), CloseFront] m0 = Inr m
     \<and> parent_chain (node_array m) (2, 2) [(2, 2), (1, 1)] (0, 0)"
  by (simp add: eval_defs)

lemma ex_run_2:
  "\<exists>m0 m. make_GridMap 3 3 [1, 1, 1, 1, 1, 1, 1, 1, 1::real] True = Inr m0
     \<and> run [Open (0, 0) 0 2 (0, 0), Open (2, 2) 2 0 (0, 0), Open (0, 2) 3 2 (2, 2)] m0 = Inr m
     \<and> parent_chain (node_array m) (0, 2) [(0, 2), (2, 2)] (0, 0)"
  by (simp add: eval_defs)

text \<open>
  C1, as the code has it. When the parent pointers lead from \<open>n\<close> through the cells
  \<open>cs\<close> to a cell \<open>r\<close> that is its own parent, \<^verbatim>\<open>get_path(n)\<close> terminates and returns
  \<open>cs\<close>: the cells from \<open>n\<close> up to, and not including, \<open>r\<close>, goal first. Each returned
  cell has the next one as its parent and the last one has \<open>r\<close>, so successive cells
  (and the last cell and \<open>r\<close>) are at Chebyshev distance 1 whenever every parent link
  of the chain joins two cells at that distance. Afterwards \<open>r\<close> has state start, \<open>n\<close>
  has state goal unless it is \<open>r\<close>, the other returned cells have state result, and
  nothing else has changed.
\<close>

theorem get_path_effect:
  assumes "parent_chain (node_array m) n cs r"
  shows "\<exists>m'. get_path n m = Some (Inr (cs, m'))
     \<and> hd (cs @ [r]) = n \<and> r \<notin> set cs
     \<and> successively (\<lambda>a b. parent (na_nodes (node_array m) a) = Some b) (cs @ [r])
     \<and> ((\<forall>c \<in> set cs. \<forall>q. parent (na_nodes (node_array m) c) = Some q \<longrightarrow>
             chebyshev_distance c q = 1)
          \<longrightarrow> successively (\<lambda>a b. chebyshev_distance a b = 1) (cs @ [r]))
     \<and> (\<forall>c. state (na_nodes (node_array m') c) =
               (if c = r then start else if c = n then goal
                else if c \<in> set cs then result
                else state (na_nodes (node_array m) c))
            \<and> g_cost (na_nodes (node_array m') c) = g_cost (na_nodes (node_array m) c)
            \<and> f_cost (na_nodes (node_array m') c) = f_cost (na_nodes (node_array m) c)
            \<and> parent (na_nodes (node_array m') c) = parent (na_nodes (node_array m) c))
     \<and> open_list m' = open_list m \<and> stats m' = stats m"
proof -
  let ?na = "node_update r (\<lambda>r. r\<lparr>state := start\<rparr>)
         (node_update n (\<lambda>r. r\<lparr>state := goal\<rparr>)
            (fold (\<lambda>c. node_update c (\<lambda>r. r\<lparr>state := result\<rparr>)) cs (node_array m)))"
  let ?m = "m\<lparr>node_array := ?na\<rparr>"
  have 1: "get_path n m = Some (Inr (cs, ?m))"
    using assms by (rule get_path_chain)
  note links = parent_chain_links [OF assms]
  have adj: "successively (\<lambda>a b. chebyshev_distance a b = 1) (cs @ [r])"
    if h: "\<forall>c \<in> set cs. \<forall>q. parent (na_nodes (node_array m) c) = Some q \<longrightarrow>
             chebyshev_distance c q = 1"
  proof -
    have "successively (\<lambda>a b. a \<in> set cs \<and> parent (na_nodes (node_array m) a) = Some b) (cs @ [r])"
      using links by (auto simp: successively_conv_nth nth_append)
    then show ?thesis
      by (rule successively_mono) (use h in auto)
  qed
  have st: "state (na_nodes ?na c) =
               (if c = r then start else if c = n then goal
                else if c \<in> set cs then result
                else state (na_nodes (node_array m) c))
            \<and> g_cost (na_nodes ?na c) = g_cost (na_nodes (node_array m) c)
            \<and> f_cost (na_nodes ?na c) = f_cost (na_nodes (node_array m) c)
            \<and> parent (na_nodes ?na c) = parent (na_nodes (node_array m) c)" for c
    by (simp add: na_nodes_node_update na_nodes_fold_result)
  show ?thesis
    by (rule exI [of _ ?m]) (use 1 links adj st in simp)
qed

theorem get_path_effect_witness:
  "\<exists>m0 m m'. make_GridMap 3 3 [1, 1, 1, 1, 1, 1, 1, 1, 1::real] True = Inr m0
     \<and> run [Open (0, 0) 0 2 (0, 0), CloseFront, Open (1, 1) 1 1 (0, 0), CloseFront,
             Open (2, 2) 2 0 (1, 1), CloseFront] m0 = Inr m
     \<and> parent_chain (node_array m) (2, 2) [(2, 2), (1, 1)] (0, 0)
     \<and> get_path (2, 2) m = Some (Inr ([(2, 2), (1, 1)], m'))
     \<and> state (na_nodes (node_array m') (0, 0)) = start
     \<and> state (na_nodes (node_array m') (1, 1)) = result
     \<and> state (na_nodes (node_array m') (2, 2)) = goal
     \<and> state (na_nodes (node_array m') (0, 1)) = unexplored
     \<and> successively (\<lambda>a b. chebyshev_distance a b = 1) [(2, 2), (1, 1), (0, 0)]"
proof -
  from ex_run_1 obtain m0 m where
    r: "make_GridMap 3 3 [1, 1, 1, 1, 1, 1, 1, 1, 1::real] True = Inr m0"
      "run [Open (0, 0) 0 2 (0, 0), CloseFront, Open (1, 1) 1 1 (0, 0), CloseFront,
             Open (2, 2) 2 0 (1, 1), CloseFront] m0 = Inr m"
      "parent_chain (node_array m) (2, 2) [(2, 2), (1, 1)] (0, 0)"
    by blast
  have u: "state (na_nodes (node_array m) (0, 1)) = unexplored"
    using r(1,2) by (auto simp: eval_defs)
  have adj: "successively (\<lambda>a b. chebyshev_distance a b = 1) [(2, 2), (1, 1), (0::int, 0::int)]"
    by (simp add: chebyshev_distance_def x_coord_def y_coord_def)
  from get_path_effect [OF r(3)] obtain m' where
    g: "get_path (2, 2) m = Some (Inr ([(2, 2), (1, 1)], m'))"
    and s: "\<And>c. state (na_nodes (node_array m') c) =
               (if c = (0, 0) then start else if c = (2, 2) then goal
                else if c \<in> set [(2, 2), (1, 1)] then result
                else state (na_nodes (node_array m) c))"
    by blast
  show ?thesis
    using r g adj by (intro exI [of _ m0] exI [of _ m] exI [of _ m']) (simp add: s u)
qed

text \<open>
  Two runs on a fresh 3 by 3 map. In the first the start (0, 0), its neighbour (1, 1)
  and the goal (2, 2) are opened and closed in turn: the path returned for the goal
  begins with the goal and does not contain the start. In the second the parents given
  to \<^verbatim>\<open>open_node\<close> are not neighbours of the opened cells, and the returned path has
  successive cells that are not adjacent.
\<close>

theorem get_path_counterexample:
  "(case make_GridMap 3 3 [1, 1, 1, 1, 1, 1, 1, 1, 1::real] True of
      Inl e \<Rightarrow> False
    | Inr m0 \<Rightarrow>
        (case run [Open (0, 0) 0 2 (0, 0), CloseFront, Open (1, 1) 1 1 (0, 0), CloseFront,
                   Open (2, 2) 2 0 (1, 1), CloseFront] m0 of
           Inl e \<Rightarrow> False
         | Inr m \<Rightarrow>
             parent_chain (node_array m) (2, 2) [(2, 2), (1, 1)] (0, 0)
             \<and> (case get_path (2, 2) m of
                   None \<Rightarrow> False
                 | Some (Inl e) \<Rightarrow> False
                 | Some (Inr (path, m')) \<Rightarrow>
                     path = [(2, 2), (1, 1)] \<and> (0, 0) \<notin> set path
                     \<and> hd path = (2, 2) \<and> last path = (1, 1))))
   \<and> (case make_GridMap 3 3 [1, 1, 1, 1, 1, 1, 1, 1, 1::real] True of
      Inl e \<Rightarrow> False
    | Inr m0 \<Rightarrow>
        (case run [Open (0, 0) 0 2 (0, 0), Open (2, 2) 2 0 (0, 0),
                   Open (0, 2) 3 2 (2, 2)] m0 of
           Inl e \<Rightarrow> False
         | Inr m \<Rightarrow>
             parent_chain (node_array m) (0, 2) [(0, 2), (2, 2)] (0, 0)
             \<and> (case get_path (0, 2) m of
                   None \<Rightarrow> False
                 | Some (Inl e) \<Rightarrow> False
                 | Some (Inr (path, m')) \<Rightarrow>
                     path = [(0, 2), (2, 2)]
                     \<and> \<not> successively (\<lambda>a b. chebyshev_distance a b = 1) path)))"
proof -
  from ex_run_1 obtain m0 m where
    1: "make_GridMap 3 3 [1, 1, 1, 1, 1, 1, 1, 1, 1::real] True = Inr m0"
      "run [Open (0, 0) 0 2 (0, 0), CloseFront, Open (1, 1) 1 1 (0, 0), CloseFront,
             Open (2, 2) 2 0 (1, 1), CloseFront] m0 = Inr m"
      "parent_chain (node_array m) (2, 2) [(2, 2), (1, 1)] (0, 0)"
    by blast
  from ex_run_2 obtain n0 n where
    2: "make_GridMap 3 3 [1, 1, 1, 1, 1, 1, 1, 1, 1::real] True = Inr n0"
      "run [Open (0, 0) 0 2 (0, 0), Open (2, 2) 2 0 (0, 0), Open (0, 2) 3 2 (2, 2)] n0 = Inr n"
      "parent_chain (node_array n) (0, 2) [(0, 2), (2, 2)] (0, 0)"
    by blast
  have d: "\<not> successively (\<lambda>a b. chebyshev_distance a b = 1) [(0, 2), (2, 2)]"
    by (simp add: chebyshev_distance_def x_coord_def y_coord_def)
  from 1(1) 2(1) have same: "n0 = m0" by simp
  show ?thesis
    using d 1(3) 2(3)
    by (simp only: 1(1) 1(2) 2(2) [unfolded same] get_path_chain [OF 1(3)]
          get_path_chain [OF 2(3)] sum.case option.case prod.case) simp
qed

subsection \<open>Heap order under sifting\<close>















subsection \<open>Heap order under the queue operations\<close>





subsection \<open>The open list agrees with the node states\<close>
























end
